theory Spec2Isabelle
  imports Main "HOL-Library.Word"
begin

unbundle bit_operations_syntax

section \<open>JavaScript values\<close>

text \<open>
  Inbound \<open>postMessage\<close> data is untyped.  The values modelled are the JSON-like ones:
  \<open>undefined\<close>, \<open>null\<close>, booleans, numbers, strings, arrays and plain objects.  A number
  is an integer or \<open>NaN\<close>; the code asks a number for its \<open>typeof\<close>, its truthiness
  and whether it is at most 16, and writes it into log lines, and every other finite
  number answers like a non-zero integer.  An array is the list of its elements and an
  object the list of its own properties, none of them a function; a read takes the first
  entry for a key.
\<close>

datatype jsval =
    JUndefined
  | JNull
  | JBool bool
  | JNum int
  | JNaN
  | JStr string
  | JArr "jsval list"
  | JObj "(string \<times> jsval) list"

fun typeof :: "jsval \<Rightarrow> string" where
  "typeof JUndefined = ''undefined''"
| "typeof JNull = ''object''"
| "typeof (JBool b) = ''boolean''"
| "typeof (JNum n) = ''number''"
| "typeof JNaN = ''number''"
| "typeof (JStr s) = ''string''"
| "typeof (JArr xs) = ''object''"
| "typeof (JObj kvs) = ''object''"

text \<open>\<open>!v\<close> is \<open>\<not> truthy v\<close>.\<close>

fun truthy :: "jsval \<Rightarrow> bool" where
  "truthy JUndefined = False"
| "truthy JNull = False"
| "truthy (JBool b) = b"
| "truthy (JNum n) = (n \<noteq> 0)"
| "truthy JNaN = False"
| "truthy (JStr s) = (s \<noteq> [])"
| "truthy (JArr xs) = True"
| "truthy (JObj kvs) = True"

fun nullish :: "jsval \<Rightarrow> bool" where
  "nullish JUndefined = True"
| "nullish JNull = True"
| "nullish v = False"

text \<open>
  \<open>getprop v k\<close> is the read \<open>v.k\<close> (or \<open>v?.k\<close>) on a value that is not nullish, for the
  property names the code reads (none of them is \<open>length\<close> or an index): an own property
  of an object, \<open>undefined\<close> on anything else.  On \<open>undefined\<close> and \<open>null\<close> the read
  \<open>v?.k\<close> gives \<open>undefined\<close> too, while \<open>v.k\<close> throws a TypeError; the callers below
  test \<open>nullish\<close> first wherever the source uses the plain read.
\<close>

fun getprop :: "jsval \<Rightarrow> string \<Rightarrow> jsval" where
  "getprop (JObj kvs) k = (case map_of kvs k of Some v \<Rightarrow> v | None \<Rightarrow> JUndefined)"
| "getprop v k = JUndefined"

text \<open>The read \<open>v[0]\<close> (or \<open>v?.[0]\<close>) on a value that is not nullish.\<close>

fun getIndex0 :: "jsval \<Rightarrow> jsval" where
  "getIndex0 (JArr (x # xs)) = x"
| "getIndex0 (JStr (c # cs)) = JStr [c]"
| "getIndex0 (JObj kvs) = (case map_of kvs ''0'' of Some v \<Rightarrow> v | None \<Rightarrow> JUndefined)"
| "getIndex0 v = JUndefined"

text \<open>
  The conversion of a value to a string, as a template literal \<open>${v}\<close>, \<open>parseInt(v)\<close>
  and \<open>join\<close> perform it, and the conversion to a number in \<open>v * 1000\<close> and
  \<open>v <= 16\<close>, throw a TypeError on the same values.  A value that arrived in a message
  holds no function, so an own property \<open>toString\<close> of an object is not callable; the
  inherited \<open>valueOf\<close> returns the object itself, and no primitive is found.  An object
  without that own property takes \<open>Object.prototype.toString\<close>.  An array is joined,
  which converts each of its elements other than \<open>undefined\<close> and \<open>null\<close>.
\<close>

fun toStringThrows :: "jsval \<Rightarrow> bool" where
  "toStringThrows (JObj kvs) = (map_of kvs ''toString'' \<noteq> None)"
| "toStringThrows (JArr xs) = (\<exists>x \<in> set xs. toStringThrows x)"
| "toStringThrows v = False"

section \<open>The type guards of the type package\<close>

definition validTypes :: "string list" where
  "validTypes =
    [''TLEND_LOADED'', ''STYLES_UPGRADE'', ''SET_LOGO'', ''AUTH_CHECK_REQUEST'',
     ''AUTH_CHECK_RESPONSE'', ''AUTH_CREDENTIALS'', ''AUTH_RESULT'', ''AUTH_REQUEST'',
     ''TLEND_READY'', ''DISCONNECT'', ''REPAY_REQUEST'', ''REPAY_RESULT'', ''ERROR'']"

definition isValidMessageType :: "string \<Rightarrow> bool" where
  "isValidMessageType t = (t \<in> set validTypes)"

definition isIframeMessage :: "jsval \<Rightarrow> bool" where
  "isIframeMessage v =
    (if typeof v \<noteq> ''object'' \<or> v = JNull then False
     else typeof (getprop v ''type'') = ''string'' \<and>
          typeof (getprop v ''timestamp'') = ''number'' \<and>
          (case getprop v ''type'' of JStr t \<Rightarrow> isValidMessageType t | _ \<Rightarrow> False))"

section \<open>The partner page: state, environment and effects\<close>

datatype lifecycle = LOADING | PENDING_AUTH | READY | ERROR

text \<open>An entry of \<open>state.pendingRequests\<close>; \<open>ptimeout\<close> is the handle \<open>setTimeout\<close> returned.\<close>

record pending_request =
  ptype :: string
  ptimestamp :: nat
  ptimeout :: nat

record repay_request =
  rr_requestId :: jsval
  rr_payload :: jsval
  rr_timestamp :: nat

text \<open>The closures the script hands to \<open>setTimeout\<close>.\<close>

datatype task =
    AuthCheckTimeout string
  | AuthCredentialsTimeout string
  | SendAuthCredentials
  | SendAuthCheckRequest
  | SendStylesUpgrade
  | SendSetLogo
  | SetReadyImmediately
  | MockRepayResult jsval
  | OnloadAutoReady

text \<open>
  The fields up to \<open>tonConnectUI\<close> are the script's \<open>state\<close> object (\<open>tonConnectUI\<close>
  records only whether the object has been created).  \<open>TLEND_ORIGINS\<close> is the mutable
  list in \<open>CONFIG\<close>.  \<open>iframe\<close> says whether \<open>#iframeContainer\<close> holds an iframe,
  \<open>timers\<close> are the timeouts scheduled and not yet fired or cleared (handle to delay and
  closure), \<open>nextTimer\<close> the next handle.
\<close>

record world =
  iframeLoaded :: bool
  tlendState :: "lifecycle option"
  walletConnected :: bool
  walletAddress :: jsval
  walletPublicKey :: jsval
  walletAccount :: jsval
  tonProof :: jsval
  pendingRequests :: "string \<rightharpoonup> pending_request"
  pendingRepayRequest :: "repay_request option"
  tlendOrigin :: "string option"
  tlendVersion :: jsval
  tlendCapabilities :: jsval
  tonConnectUI :: bool
  TLEND_ORIGINS :: "string list"
  iframe :: bool
  timers :: "nat \<rightharpoonup> nat \<times> task"
  nextTimer :: nat

definition initialWorld :: world where
  "initialWorld =
    \<lparr> iframeLoaded = False, tlendState = None, walletConnected = False,
      walletAddress = JNull, walletPublicKey = JNull, walletAccount = JNull, tonProof = JNull,
      pendingRequests = Map.empty, pendingRepayRequest = None, tlendOrigin = None,
      tlendVersion = JNull, tlendCapabilities = JArr [], tonConnectUI = False,
      TLEND_ORIGINS = [''https://tlend.co'', ''https://staging.tlend.co''],
      iframe = False, timers = Map.empty, nextTimer = 0 \<rparr>"

datatype theme = Dark | Light

text \<open>
  What one run of a handler reads from outside the script: the clock (one reading serves
  every \<open>Date.now()\<close> of the run), the random draws,
  the values of the form controls (\<open>None\<close> when the element is missing, so that
  \<open>elements.x?.value\<close> is \<open>undefined\<close>; a theme selector offers \<open>dark\<close> and
  \<open>light\<close>), whether the page has the elements of the repayment panel
  (\<open>repayPanel\<close> and \<open>repayDetails\<close>) and of the repayment modal (\<open>repayModal\<close> and
  \<open>repayModalBody\<close>), and three answers of the JavaScript engine that are taken as given:
  \<open>looseLe16 v\<close>, the result of \<open>v <= 16\<close> for a string or array \<open>v\<close> (a conversion
  to a double), the message text of a TypeError, and \<open>urlParses s\<close>, whether the URL
  parser accepts a string \<open>s\<close> that contains a colon.
\<close>

record env =
  now :: nat
  rnd :: string
  rndSignatureHex :: string
  rndPublicKey :: string
  rndStateInit :: string
  rndSignature :: string
  rndTxHash :: string
  autoReadyMode :: "string option"
  skipAuth :: "string option"
  partnerTheme :: "theme option"
  logoMode :: "string option"
  partnerName :: "string option"
  partnerId :: "string option"
  tlendUrl :: "string option"
  iframeContainer :: bool
  repayPanel :: bool
  repayModal :: bool
  looseLe16 :: "jsval \<Rightarrow> bool"
  typeErrorMessage :: string
  urlParses :: "string \<Rightarrow> bool"

text \<open>
  What a handler does to the outside: a message that \<open>postMessage\<close> has accepted for
  the iframe, with its target origin; a call of \<open>logInfo\<close> (only the fixed part of
  the text is kept) or of \<open>logEvent\<close>; the repayment panel and the repayment modal
  rendered, or both hidden; a transaction handed to the wallet for signing; and an
  exception that leaves the handler uncaught, which ends the run: the statements after
  the one that throws are not executed.  The argument of \<open>logInfo\<close> is evaluated before
  the call, so a template literal that throws leaves no \<open>LogInfo\<close>.
\<close>

datatype effect =
    PostMessage jsval string
  | LogInfo string
  | LogEvent string jsval
  | ShowRepayPanel jsval
  | ShowRepayModal jsval
  | HideRepay
  | AwaitSign jsval jsval
  | Uncaught

text \<open>The messages posted by a list of effects, each with its target origin.\<close>

definition posted :: "effect list \<Rightarrow> (jsval \<times> string) list" where
  "posted es = concat (map (\<lambda>e. case e of PostMessage m t \<Rightarrow> [(m, t)] | _ \<Rightarrow> []) es)"

subsection \<open>Utilities\<close>

definition digitChar :: "nat \<Rightarrow> char" where
  "digitChar d = ''0123456789abcdef'' ! d"

fun showNat :: "nat \<Rightarrow> string" where
  "showNat n = (if n < 10 then [digitChar n] else showNat (n div 10) @ [digitChar (n mod 10)])"

declare showNat.simps [simp del]

fun showHex :: "nat \<Rightarrow> string" where
  "showHex n = (if n < 16 then [digitChar n] else showHex (n div 16) @ [digitChar (n mod 16)])"

declare showHex.simps [simp del]

definition padStart :: "nat \<Rightarrow> char \<Rightarrow> string \<Rightarrow> string" where
  "padStart n c s = replicate (n - length s) c @ s"

definition generateRequestId :: "env \<Rightarrow> string \<Rightarrow> string" where
  "generateRequestId e prefix = prefix @ ''-'' @ showNat (now e) @ ''-'' @ rnd e"

definition orDefault :: "string option \<Rightarrow> string \<Rightarrow> string" where
  "orDefault v d = (case v of None \<Rightarrow> d | Some s \<Rightarrow> if s = [] then d else s)"

fun jsLe16 :: "env \<Rightarrow> jsval \<Rightarrow> bool" where
  "jsLe16 e (JNum n) = (n \<le> 16)"
| "jsLe16 e JNull = True"
| "jsLe16 e (JBool b) = True"
| "jsLe16 e (JStr s) = looseLe16 e (JStr s)"
| "jsLe16 e (JArr xs) = looseLe16 e (JArr xs)"
| "jsLe16 e v = False"

text \<open>
  Every call of \<open>truncateAddress(address)\<close> stands in a template literal, which converts
  the result to a string: \<open>logAddressThrows e address\<close> says whether the call or that
  conversion throws.  A falsy argument gives the empty string and a string gives a string.
  An array of at most 16 elements is returned as it is, a longer one is cut to its first
  and its last 8 elements, and the conversion joins them.  On an object the comparison
  \<open>address.length <= 16\<close> converts the property to a number; when it holds the object
  itself is returned and converted, and otherwise \<open>address.slice\<close> is called, which is
  not a function.  A number other than 0 and \<open>true\<close> have no \<open>length\<close> and no
  \<open>slice\<close>.
\<close>

fun logAddressThrows :: "env \<Rightarrow> jsval \<Rightarrow> bool" where
  "logAddressThrows e (JObj kvs) =
    (toStringThrows (getprop (JObj kvs) ''length'')
     \<or> \<not> jsLe16 e (getprop (JObj kvs) ''length'')
     \<or> toStringThrows (JObj kvs))"
| "logAddressThrows e (JArr xs) =
    (if length xs \<le> 16 then toStringThrows (JArr xs)
     else toStringThrows (JArr (take 8 xs)) \<or> toStringThrows (JArr (drop (length xs - 8) xs)))"
| "logAddressThrows e (JNum n) = (n \<noteq> 0)"
| "logAddressThrows e (JBool b) = b"
| "logAddressThrows e v = False"

definition updateTLendState :: "lifecycle \<Rightarrow> world \<Rightarrow> world" where
  "updateTLendState newState w = w\<lparr>tlendState := Some newState\<rparr>"

definition setTimeout :: "task \<Rightarrow> nat \<Rightarrow> world \<Rightarrow> nat \<times> world" where
  "setTimeout t delay w =
    (nextTimer w,
     w\<lparr>timers := (timers w)(nextTimer w \<mapsto> (delay, t)), nextTimer := Suc (nextTimer w)\<rparr>)"

definition clearTimeout :: "nat \<Rightarrow> world \<Rightarrow> world" where
  "clearTimeout h w = w\<lparr>timers := (timers w)(h := None)\<rparr>"

subsection \<open>Message sending\<close>

definition targetOrigin :: "world \<Rightarrow> string" where
  "targetOrigin w = (case tlendOrigin w of None \<Rightarrow> ''*'' | Some origin \<Rightarrow> if origin = [] then ''*'' else origin)"

text \<open>
  \<open>postMessage(message, targetOrigin)\<close> throws a SyntaxError unless the target origin is
  \<open>*\<close>, \<open>/\<close> or a string that parses as a URL.  A string without a colon has no
  scheme and does not parse: so it is with \<open>null\<close>, the origin of a message sent by a
  \<open>file:\<close> page or by a frame with an opaque origin.
\<close>

definition postMessageThrows :: "env \<Rightarrow> string \<Rightarrow> bool" where
  "postMessageThrows e t =
    (\<not> (t = ''*'' \<or> t = ''/'' \<or> (CHR '':'' \<in> set t \<and> urlParses e t)))"

text \<open>
  \<open>sendToTLend(message)\<close>: nothing is posted when \<open>postMessage\<close> throws, and the
  exception goes on to the caller (\<open>sendThrows\<close>), whose later statements do not run.
\<close>

definition sendThrows :: "env \<Rightarrow> world \<Rightarrow> bool" where
  "sendThrows e w = (iframe w \<and> postMessageThrows e (targetOrigin w))"

definition sendToTLend :: "env \<Rightarrow> jsval \<Rightarrow> world \<Rightarrow> effect list" where
  "sendToTLend e message w =
    (if \<not> iframe w then [LogInfo ''Cannot send message: iframe not loaded'']
     else if postMessageThrows e (targetOrigin w) then [Uncaught]
     else [PostMessage message (targetOrigin w), LogEvent ''outgoing'' message])"

subsection \<open>Track 1: styles, logo, disconnect\<close>

fun themeName :: "theme \<Rightarrow> string" where
  "themeName Dark = ''dark''"
| "themeName Light = ''light''"

fun getPartnerStyles :: "theme \<Rightarrow> jsval" where
  "getPartnerStyles Dark = JObj
    [(''--primary-color'', JStr ''#6366f1''), (''--secondary-color'', JStr ''#8b5cf6''),
     (''--background-color'', JStr ''#0f0f23''), (''--surface-color'', JStr ''#1a1a2e''),
     (''--text-color'', JStr ''#ffffff''), (''--text-secondary'', JStr ''#a0a0b0''),
     (''--border-color'', JStr ''#2d2d44''), (''--border-radius'', JStr ''12px''),
     (''--button-bg'', JStr ''#6366f1''), (''--button-text'', JStr ''#ffffff''),
     (''--card-bg'', JStr ''#1a1a2e''), (''--success-color'', JStr ''#10b981''),
     (''--error-color'', JStr ''#ef4444''), (''--warning-color'', JStr ''#f59e0b'')]"
| "getPartnerStyles Light = JObj
    [(''--primary-color'', JStr ''#6366f1''), (''--secondary-color'', JStr ''#8b5cf6''),
     (''--background-color'', JStr ''#f8fafc''), (''--surface-color'', JStr ''#ffffff''),
     (''--text-color'', JStr ''#1e293b''), (''--text-secondary'', JStr ''#64748b''),
     (''--border-color'', JStr ''#e2e8f0''), (''--border-radius'', JStr ''12px''),
     (''--button-bg'', JStr ''#6366f1''), (''--button-text'', JStr ''#ffffff''),
     (''--card-bg'', JStr ''#ffffff''), (''--success-color'', JStr ''#10b981''),
     (''--error-color'', JStr ''#ef4444''), (''--warning-color'', JStr ''#f59e0b'')]"

definition sendStylesUpgrade :: "env \<Rightarrow> world \<Rightarrow> world \<times> effect list" where
  "sendStylesUpgrade e w =
    (let theme = (case partnerTheme e of None \<Rightarrow> Dark | Some t \<Rightarrow> t);
         message = JObj [(''type'', JStr ''STYLES_UPGRADE''), (''timestamp'', JNum (int (now e))),
                         (''payload'', JObj [(''styles'', getPartnerStyles theme),
                                             (''theme'', JStr (themeName theme))])]
     in (w, sendToTLend e message w))"

definition sendSetLogo :: "env \<Rightarrow> world \<Rightarrow> world \<times> effect list" where
  "sendSetLogo e w =
    (let message = JObj [(''type'', JStr ''SET_LOGO''), (''timestamp'', JNum (int (now e))),
                         (''payload'', JObj [(''mode'', JStr (orDefault (logoMode e) ''combined'')),
                                             (''partnerName'', JStr (orDefault (partnerName e) ''Partner Finance'')),
                                             (''partnerLogoUrl'', JStr ''https://partner.example.com/logo.svg'')])]
     in (w, sendToTLend e message w))"

text \<open>
  \<open>sendDisconnect(reason = 'user_initiated')\<close>: the default stands in for \<open>undefined\<close>.
  The reason is written into the log line after the message is sent.
\<close>

definition sendDisconnect :: "env \<Rightarrow> jsval \<Rightarrow> world \<Rightarrow> world \<times> effect list" where
  "sendDisconnect e reason0 w =
    (let reason = (if reason0 = JUndefined then JStr ''user_initiated'' else reason0);
         message = JObj [(''type'', JStr ''DISCONNECT''), (''timestamp'', JNum (int (now e))),
                         (''payload'', JObj [(''reason'', reason)])]
     in if sendThrows e w then (w, [Uncaught])
        else if toStringThrows reason then (w, sendToTLend e message w @ [Uncaught])
        else (w, sendToTLend e message w @ [LogInfo ''Sent DISCONNECT to TLend'']))"

subsection \<open>Track 2: authentication\<close>

definition sendAuthCheckRequest :: "env \<Rightarrow> world \<Rightarrow> world \<times> effect list" where
  "sendAuthCheckRequest e w =
    (if \<not> truthy (walletAddress w)
     then (w, [LogInfo ''Cannot send AUTH_CHECK_REQUEST: connect wallet first''])
     else
       let requestId = generateRequestId e ''auth-check'';
           message = JObj [(''type'', JStr ''AUTH_CHECK_REQUEST''), (''requestId'', JStr requestId),
                           (''timestamp'', JNum (int (now e))),
                           (''payload'', JObj [(''walletAddress'', walletAddress w)])];
           (h, w1) = setTimeout (AuthCheckTimeout requestId) 5000 w;
           w2 = w1\<lparr>pendingRequests := (pendingRequests w1)
                  (requestId \<mapsto> \<lparr>ptype = ''AUTH_CHECK'', ptimestamp = now e, ptimeout = h\<rparr>)\<rparr>
       in (w2, sendToTLend e message w2))"

definition handleAuthCheckTimeout :: "string \<Rightarrow> world \<Rightarrow> world \<times> effect list" where
  "handleAuthCheckTimeout requestId w =
    (case pendingRequests w requestId of
       None \<Rightarrow> (w, [])
     | Some pending \<Rightarrow>
         (w\<lparr>pendingRequests := (pendingRequests w)(requestId := None)\<rparr>,
          [LogInfo ''AUTH_CHECK_REQUEST timed out'']))"

text \<open>
  The opening lines of \<open>handleAuthCheckResponse\<close> and of \<open>handleAuthResult\<close>: look the
  request id up, and if an entry is there clear its timeout and delete it.  The keys of
  the map are strings, so a request id that is not a string finds nothing.
\<close>

definition clearPending :: "jsval \<Rightarrow> world \<Rightarrow> world" where
  "clearPending requestId w =
    (case requestId of
       JStr rid \<Rightarrow>
         (case pendingRequests w rid of
            None \<Rightarrow> w
          | Some pending \<Rightarrow>
              (clearTimeout (ptimeout pending) w)\<lparr>pendingRequests := (pendingRequests w)(rid := None)\<rparr>)
     | _ \<Rightarrow> w)"

definition handleAuthCheckResponse :: "env \<Rightarrow> jsval \<Rightarrow> world \<Rightarrow> world \<times> effect list" where
  "handleAuthCheckResponse e message w =
    (let requestId = getprop message ''requestId'';
         payload = getprop message ''payload'';
         w1 = clearPending requestId w
     in if nullish payload then (w1, [Uncaught])
        else
          let authenticated = getprop payload ''authenticated'';
              matchesRequested = getprop payload ''matchesRequested'';
              address = getprop payload ''address''
          in if \<not> truthy authenticated \<or> \<not> truthy matchesRequested
             then
               let w2 = updateTLendState PENDING_AUTH w1;
                   w3 = (if walletConnected w2 then snd (setTimeout SendAuthCredentials 500 w2) else w2)
               in (w3, [LogInfo ''TLend not authenticated or address mismatch - sending credentials''])
             else if logAddressThrows e address then (w1, [Uncaught])
             else (w1, [LogInfo ''TLend already authenticated'']))"

definition generateMockTonProof :: "env \<Rightarrow> jsval \<Rightarrow> jsval" where
  "generateMockTonProof e address =
    JObj [(''account'', JObj [(''address'', address), (''chain'', JStr ''-239''),
                              (''publicKey'', JStr (rndPublicKey e)),
                              (''walletStateInit'', JStr (''te6cckECFgEAAwQA'' @ rndStateInit e))]),
          (''proof'', JObj [(''timestamp'', JNum (int (now e div 1000))),
                            (''domain'', JObj [(''lengthBytes'', JNum 15), (''value'', JStr ''partner.example'')]),
                            (''payload'', JStr (padStart 8 (CHR ''0'') (showHex (now e div 1000 + 30 * 60))
                                                 @ rndSignatureHex e)),
                            (''signature'', JStr (rndSignature e))])]"

definition sendAuthCredentials :: "env \<Rightarrow> world \<Rightarrow> world \<times> effect list" where
  "sendAuthCredentials e w =
    (if \<not> truthy (walletAddress w)
     then (w, [LogInfo ''Cannot send AUTH_CREDENTIALS: connect wallet first''])
     else
       let requestId = generateRequestId e ''auth-cred'';
           real = (truthy (walletAccount w) \<and> truthy (tonProof w));
           credentials =
             (if real
              then JObj [(''account'', JObj [(''address'', getprop (walletAccount w) ''address''),
                                             (''chain'', getprop (walletAccount w) ''chain''),
                                             (''publicKey'', getprop (walletAccount w) ''publicKey''),
                                             (''walletStateInit'', getprop (walletAccount w) ''walletStateInit'')]),
                         (''proof'', tonProof w)]
              else generateMockTonProof e (walletAddress w));
           info = (if real then LogInfo ''Using real TON proof from connected wallet''
                   else LogInfo ''Using mock TON proof (wallet not connected with proof)'');
           pid = orDefault (partnerId e) ''partner_xyz'';
           message = JObj [(''type'', JStr ''AUTH_CREDENTIALS''), (''requestId'', JStr requestId),
                           (''timestamp'', JNum (int (now e))),
                           (''payload'', JObj [(''account'', getprop credentials ''account''),
                                               (''proof'', getprop credentials ''proof''),
                                               (''partnerId'', JStr pid),
                                               (''referenceId'', JStr (pid @ ''-session-'' @ showNat (now e)))])];
           (h, w1) = setTimeout (AuthCredentialsTimeout requestId) 30000 w;
           w2 = w1\<lparr>pendingRequests := (pendingRequests w1)
                  (requestId \<mapsto> \<lparr>ptype = ''AUTH_CREDENTIALS'', ptimestamp = now e, ptimeout = h\<rparr>)\<rparr>
       in (w2, info # sendToTLend e message w2))"

definition handleAuthCredentialsTimeout :: "env \<Rightarrow> string \<Rightarrow> world \<Rightarrow> world \<times> effect list" where
  "handleAuthCredentialsTimeout e requestId w =
    (case pendingRequests w requestId of
       None \<Rightarrow> (w, [])
     | Some pending \<Rightarrow>
         let w1 = w\<lparr>pendingRequests := (pendingRequests w)(requestId := None)\<rparr>
         in if autoReadyMode e = Some ''immediate''
            then (updateTLendState READY w1,
                  [LogInfo ''AUTH_CREDENTIALS timed out'', LogInfo ''Auto-setting READY state (immediate mode)''])
            else (w1, [LogInfo ''AUTH_CREDENTIALS timed out'']))"

text \<open>
  On a failure \<open>handleAuthResult\<close> first writes \<open>payload.error?.code\<close> and
  \<open>payload.error?.message\<close> into a log line, and only then sets the lifecycle state.
\<close>

definition handleAuthResult :: "env \<Rightarrow> jsval \<Rightarrow> world \<Rightarrow> world \<times> effect list" where
  "handleAuthResult e message w =
    (let requestId = getprop message ''requestId'';
         payload = getprop message ''payload'';
         w1 = clearPending requestId w
     in if nullish payload then (w1, [Uncaught])
        else if truthy (getprop payload ''success'')
        then (if logAddressThrows e (getprop payload ''address'') then (w1, [Uncaught])
              else (w1\<lparr>walletAddress := getprop payload ''address''\<rparr>,
                    [LogInfo ''Authentication successful'']))
        else if toStringThrows (getprop (getprop payload ''error'') ''code'')
                \<or> toStringThrows (getprop (getprop payload ''error'') ''message'')
        then (w1, [Uncaught])
        else if autoReadyMode e = Some ''immediate''
        then (updateTLendState READY w1,
              [LogInfo ''Authentication failed'',
               LogInfo ''Auto-setting READY state despite auth failure (immediate mode)''])
        else (updateTLendState ERROR w1, [LogInfo ''Authentication failed'']))"

text \<open>
  \<open>handleAuthRequest\<close> writes \<open>payload?.reason || 'unknown'\<close> into a log line before
  anything else, and the current address, if there is one, before it looks at the wallet.
\<close>

definition handleAuthRequest :: "env \<Rightarrow> jsval \<Rightarrow> world \<Rightarrow> world \<times> effect list" where
  "handleAuthRequest e message w =
    (let payload = getprop message ''payload'';
         reason = (if truthy (getprop payload ''reason'') then getprop payload ''reason''
                   else JStr ''unknown'');
         currentAddress = getprop payload ''currentAddress'';
         info = LogInfo ''TLend requests re-authentication''
     in if toStringThrows reason then (w, [Uncaught])
        else if truthy currentAddress \<and> logAddressThrows e currentAddress then (w, [info, Uncaught])
        else
          let notes = (if truthy currentAddress then [info, LogInfo ''TLend thinks current address is''] else [info])
          in if walletConnected w \<and> truthy (walletAddress w)
             then
               let w1 = updateTLendState PENDING_AUTH w;
                   w2 = snd (setTimeout SendAuthCredentials 500 w1)
               in (w2, notes @ [LogInfo ''Wallet still connected - sending fresh credentials''])
             else
               let (w1, es) = sendDisconnect e (JStr ''session_expired'') w
               in (w1, notes @ [LogInfo ''Wallet not connected - sending DISCONNECT''] @ es))"

subsection \<open>Track 3: repayment\<close>

text \<open>
  \<open>showRepayPanel(payload)\<close> and \<open>showRepayModal(payload)\<close> return at once when their
  elements are missing.  Otherwise each builds its text from the payload, and throws
  when a plain read meets \<open>undefined\<close> or \<open>null\<close> (\<open>payload.amount.formatted\<close>,
  \<open>payload.transaction.validUntil\<close>) or when a value has no string or number
  conversion.  Both come after the write to \<open>state.pendingRepayRequest\<close>, send
  nothing, and the modal is not reached when the panel throws.
\<close>

definition showRepayPanelThrows :: "jsval \<Rightarrow> bool" where
  "showRepayPanelThrows payload =
    (nullish payload
     \<or> toStringThrows (getprop payload ''lendId'')
     \<or> toStringThrows (getprop payload ''nftIndex'')
     \<or> nullish (getprop payload ''amount'')
     \<or> toStringThrows (getprop (getprop payload ''amount'') ''formatted'')
     \<or> toStringThrows (getprop (getprop payload ''amount'') ''currency'')
     \<or> nullish (getprop payload ''transaction'')
     \<or> toStringThrows (getprop (getprop payload ''transaction'') ''validUntil''))"

definition showRepayModalThrows :: "jsval \<Rightarrow> bool" where
  "showRepayModalThrows payload =
    (let userAddress = getprop (getprop payload ''metadata'') ''userAddress'';
         contract = getprop (getprop payload ''metadata'') ''tLendContractAddress'';
         messages = getprop (getprop payload ''transaction'') ''messages'';
         gas = (if nullish messages then JUndefined else getprop (getIndex0 messages) ''amount'')
     in nullish payload
        \<or> nullish (getprop payload ''amount'')
        \<or> toStringThrows (getprop (getprop payload ''amount'') ''formatted'')
        \<or> toStringThrows (getprop (getprop payload ''amount'') ''currency'')
        \<or> toStringThrows (getprop payload ''lendId'')
        \<or> toStringThrows (getprop payload ''nftIndex'')
        \<or> (truthy userAddress \<and> toStringThrows userAddress)
        \<or> (truthy contract \<and> toStringThrows contract)
        \<or> (truthy gas \<and> toStringThrows gas))"

definition showRepay :: "env \<Rightarrow> jsval \<Rightarrow> effect list" where
  "showRepay e payload =
    (if repayPanel e \<and> showRepayPanelThrows payload then [Uncaught]
     else (if repayPanel e then [ShowRepayPanel payload] else [])
          @ (if \<not> repayModal e then []
             else if showRepayModalThrows payload then [Uncaught]
             else [ShowRepayModal payload]))"

definition handleRepayRequest :: "env \<Rightarrow> jsval \<Rightarrow> world \<Rightarrow> world \<times> effect list" where
  "handleRepayRequest e message w =
    (w\<lparr>pendingRepayRequest := Some \<lparr>rr_requestId = getprop message ''requestId'',
                                      rr_payload = getprop message ''payload'',
                                      rr_timestamp = now e\<rparr>\<rparr>,
     showRepay e (getprop message ''payload''))"

fun isPrefix :: "string \<Rightarrow> string \<Rightarrow> bool" where
  "isPrefix [] s = True"
| "isPrefix (c # cs) [] = False"
| "isPrefix (c # cs) (d # ds) = (c = d \<and> isPrefix cs ds)"

text \<open>\<open>s.includes(t)\<close>, as \<open>strIncludes s t\<close>.\<close>

fun strIncludes :: "string \<Rightarrow> string \<Rightarrow> bool" where
  "strIncludes [] t = (t = [])"
| "strIncludes (c # cs) t = (isPrefix t (c # cs) \<or> strIncludes cs t)"

definition repaySuccess :: "env \<Rightarrow> jsval \<Rightarrow> string \<Rightarrow> jsval" where
  "repaySuccess e requestId hash =
    JObj [(''type'', JStr ''REPAY_RESULT''), (''requestId'', requestId),
          (''timestamp'', JNum (int (now e))),
          (''payload'', JObj [(''success'', JBool True), (''transactionHash'', JStr hash),
                              (''explorerUrl'', JStr (''https://tonscan.org/tx/'' @ hash))])]"

text \<open>The result sent from the \<open>catch\<close> block, for an error with message text \<open>msg\<close>.\<close>

definition repayFailure :: "env \<Rightarrow> jsval \<Rightarrow> string \<Rightarrow> jsval" where
  "repayFailure e requestId msg =
    JObj [(''type'', JStr ''REPAY_RESULT''), (''requestId'', requestId),
          (''timestamp'', JNum (int (now e))),
          (''payload'', JObj [(''success'', JBool False),
             (''error'', JObj [(''code'', JStr (if strIncludes msg ''rejected'' then ''USER_REJECTED''
                                                 else ''TRANSACTION_FAILED'')),
                               (''message'', JStr msg),
                               (''userCancelled'', JBool (strIncludes msg ''rejected''))])])]"

definition cleanUpRepay :: "world \<Rightarrow> world" where
  "cleanUpRepay w = w\<lparr>pendingRepayRequest := None\<rparr>"

text \<open>
  \<open>payload.transaction.messages.map(msg => ...)\<close> throws inside the \<open>try\<close> unless
  \<open>messages\<close> is an array without \<open>null\<close> or \<open>undefined\<close> elements.
\<close>

fun mapMessages :: "jsval \<Rightarrow> jsval option" where
  "mapMessages (JArr ms) =
    (if \<exists>m \<in> set ms. nullish m then None
     else Some (JArr (map (\<lambda>m. JObj [(''address'', getprop m ''address''),
                                     (''amount'', getprop m ''amount''),
                                     (''payload'', getprop m ''payload'')]) ms)))"
| "mapMessages v = None"

text \<open>
  \<open>approveRepayRequest\<close> up to its \<open>await\<close>.  When the wallet is asked to sign, the
  function is suspended (\<open>AwaitSign\<close>) and \<open>approveSettled\<close> below is the rest of it.
  A \<open>postMessage\<close> that throws inside the \<open>try\<close> is caught, and the \<open>catch\<close> block
  then sends to the same target origin and throws in its turn: the clean-up after it is
  not reached.
\<close>

definition simulateRepay :: "jsval \<Rightarrow> world \<Rightarrow> world \<times> effect list" where
  "simulateRepay requestId w =
    (cleanUpRepay (snd (setTimeout (MockRepayResult requestId) 2000 w)),
     [LogInfo ''Simulating transaction (no real TON Connect)...'', HideRepay])"

definition approveRepayRequest :: "env \<Rightarrow> world \<Rightarrow> world \<times> effect list" where
  "approveRepayRequest e w =
    (case pendingRepayRequest w of
       None \<Rightarrow> (w, [LogInfo ''No pending repay request''])
     | Some r \<Rightarrow>
         let requestId = rr_requestId r; payload = rr_payload r
         in if tonConnectUI w \<and> walletConnected w
            then
              (if nullish payload then (w, [Uncaught])
               else if truthy (getprop payload ''transaction'')
               then
                 (let tx = getprop payload ''transaction''
                  in case mapMessages (getprop tx ''messages'') of
                       None \<Rightarrow>
                         (if sendThrows e w
                          then (w, [LogInfo ''Signing transaction with TON Connect...'',
                                    LogInfo ''TON Connect transaction failed'', Uncaught])
                          else (cleanUpRepay w,
                                [LogInfo ''Signing transaction with TON Connect...'',
                                 LogInfo ''TON Connect transaction failed'']
                                @ sendToTLend e (repayFailure e requestId (typeErrorMessage e)) w
                                @ [HideRepay]))
                     | Some ms \<Rightarrow>
                         (w, [LogInfo ''Signing transaction with TON Connect...'',
                              AwaitSign requestId
                                (JObj [(''validUntil'', getprop tx ''validUntil''), (''messages'', ms)])]))
               else simulateRepay requestId w)
            else simulateRepay requestId w)"

datatype sign_outcome = Signed string | SignFailed string

definition approveSettled :: "env \<Rightarrow> jsval \<Rightarrow> sign_outcome \<Rightarrow> world \<Rightarrow> world \<times> effect list" where
  "approveSettled e requestId outcome w =
    (if sendThrows e w then (w, [LogInfo ''TON Connect transaction failed'', Uncaught])
     else
       case outcome of
         Signed boc \<Rightarrow>
           (cleanUpRepay w,
            sendToTLend e (repaySuccess e requestId boc) w
            @ [LogInfo ''Transaction sent via TON Connect'', HideRepay])
       | SignFailed msg \<Rightarrow>
           (cleanUpRepay w,
            [LogInfo ''TON Connect transaction failed'']
            @ sendToTLend e (repayFailure e requestId msg) w @ [HideRepay]))"

definition mockRepayResult :: "env \<Rightarrow> jsval \<Rightarrow> world \<Rightarrow> world \<times> effect list" where
  "mockRepayResult e requestId w =
    (if sendThrows e w then (w, [Uncaught])
     else (w, sendToTLend e (repaySuccess e requestId (rndTxHash e)) w
              @ [LogInfo ''Mock transaction sent'']))"

text \<open>
  \<open>rejectRepayRequest(reason = 'USER_REJECTED')\<close>: the default stands in for \<open>undefined\<close>.
  The clean-up comes after the send, and is not reached when \<open>postMessage\<close> throws.
\<close>

definition rejectRepayRequest :: "env \<Rightarrow> jsval \<Rightarrow> world \<Rightarrow> world \<times> effect list" where
  "rejectRepayRequest e reason0 w =
    (case pendingRepayRequest w of
       None \<Rightarrow> (w, [LogInfo ''No pending repay request''])
     | Some r \<Rightarrow>
         let reason = (if reason0 = JUndefined then JStr ''USER_REJECTED'' else reason0);
             result = JObj [(''type'', JStr ''REPAY_RESULT''), (''requestId'', rr_requestId r),
                            (''timestamp'', JNum (int (now e))),
                            (''payload'', JObj [(''success'', JBool False),
                               (''error'', JObj [(''code'', reason),
                                  (''message'', JStr (if reason = JStr ''USER_REJECTED''
                                                      then ''Transaction was rejected by user''
                                                      else ''Transaction failed'')),
                                  (''userCancelled'', JBool (reason = JStr ''USER_REJECTED''))])])]
         in if sendThrows e w then (w, [Uncaught])
            else (cleanUpRepay w,
                  sendToTLend e result w @ [HideRepay, LogInfo ''Repay request rejected'']))"

subsection \<open>The message handler\<close>

definition isSkipAuth :: "env \<Rightarrow> bool" where
  "isSkipAuth e = (skipAuth e = Some ''yes'')"

text \<open>
  The log line of \<open>handleTLendLoaded\<close> comes after the state is written and before
  the timeouts are set.  It converts \<open>state.tlendVersion\<close> to a string and calls
  \<open>state.tlendCapabilities.join(', ')\<close>, a TypeError unless the stored value is an
  array, which converts the elements.
\<close>

definition handleTLendLoaded :: "env \<Rightarrow> jsval \<Rightarrow> world \<Rightarrow> world \<times> effect list" where
  "handleTLendLoaded e message w =
    (let payload = getprop message ''payload'';
         caps = getprop payload ''capabilities'';
         w1 = updateTLendState LOADING
                (w\<lparr>iframeLoaded := True, tlendVersion := getprop payload ''version'',
                   tlendCapabilities := (if truthy caps then caps else JArr [])\<rparr>)
     in if toStringThrows (tlendVersion w1) then (w1, [Uncaught])
        else case tlendCapabilities w1 of
          JArr cs \<Rightarrow>
            if toStringThrows (JArr cs) then (w1, [Uncaught])
            else
            (let w2 = snd (setTimeout SendStylesUpgrade 100 w1);
                 w3 = snd (setTimeout SendSetLogo 200 w2)
             in if isSkipAuth e
                then (if autoReadyMode e = Some ''immediate''
                      then (snd (setTimeout SetReadyImmediately 500 w3),
                            [LogInfo ''TLend loaded'', LogInfo ''Skipping auth flow (skipAuth=yes)''])
                      else (w3, [LogInfo ''TLend loaded'', LogInfo ''Skipping auth flow (skipAuth=yes)'']))
                else (snd (setTimeout SendAuthCheckRequest 300 w3), [LogInfo ''TLend loaded'']))
        | _ \<Rightarrow> (w1, [Uncaught]))"

definition handleTLendReady :: "env \<Rightarrow> jsval \<Rightarrow> world \<Rightarrow> world \<times> effect list" where
  "handleTLendReady e message w =
    (let w1 = w\<lparr>iframeLoaded := True\<rparr>
     in if logAddressThrows e (getprop (getprop message ''payload'') ''address'')
        then (w1, [Uncaught])
        else if \<not> isSkipAuth e \<and> walletConnected w1
        then
          (let w2 = snd (setTimeout SendStylesUpgrade 100 w1);
               w3 = snd (setTimeout SendSetLogo 200 w2);
               w4 = snd (setTimeout SendAuthCheckRequest 400 w3)
           in (w4, [LogInfo ''TLend READY received'']))
        else if isSkipAuth e
        then (updateTLendState READY w1, [LogInfo ''TLend READY received''])
        else (updateTLendState READY w1,
              [LogInfo ''TLend READY received'',
               LogInfo ''Wallet not connected - connect wallet to send auth messages'']))"

text \<open>
  \<open>handleError\<close> writes \<open>payload.code\<close> and \<open>payload.message\<close> into a log line
  before it looks at \<open>payload.recoverable\<close>.
\<close>

definition handleError :: "env \<Rightarrow> jsval \<Rightarrow> world \<Rightarrow> world \<times> effect list" where
  "handleError e message w =
    (let payload = getprop message ''payload''
     in if nullish payload then (w, [Uncaught])
        else if toStringThrows (getprop payload ''code'') \<or> toStringThrows (getprop payload ''message'')
        then (w, [Uncaught])
        else if \<not> truthy (getprop payload ''recoverable'')
        then (updateTLendState ERROR w, [LogInfo ''ERROR from TLend''])
        else (w, [LogInfo ''ERROR from TLend'']))"

text \<open>The first lines of \<open>handleMessage\<close>: store the origin for future messages.\<close>

definition storeOrigin :: "string \<Rightarrow> world \<Rightarrow> world \<times> effect list" where
  "storeOrigin origin w =
    (if \<not> (case tlendOrigin w of None \<Rightarrow> False | Some s \<Rightarrow> s \<noteq> [])
     then (if origin \<notin> set (TLEND_ORIGINS w)
           then (w\<lparr>tlendOrigin := Some origin, TLEND_ORIGINS := TLEND_ORIGINS w @ [origin]\<rparr>,
                 [LogInfo ''Added TLend origin''])
           else (w\<lparr>tlendOrigin := Some origin\<rparr>, []))
     else (w, []))"

definition dispatch :: "env \<Rightarrow> jsval \<Rightarrow> world \<Rightarrow> world \<times> effect list" where
  "dispatch e message w =
    (let t = getprop message ''type''
     in if t = JStr ''TLEND_LOADED'' then handleTLendLoaded e message w
        else if t = JStr ''AUTH_CHECK_RESPONSE'' then handleAuthCheckResponse e message w
        else if t = JStr ''AUTH_RESULT'' then handleAuthResult e message w
        else if t = JStr ''TLEND_READY'' then handleTLendReady e message w
        else if t = JStr ''REPAY_REQUEST'' then handleRepayRequest e message w
        else if t = JStr ''AUTH_REQUEST'' then handleAuthRequest e message w
        else if t = JStr ''ERROR'' then handleError e message w
        else if toStringThrows t then (w, [Uncaught])
        else (w, [LogInfo ''Unknown message type'']))"

text \<open>
  \<open>handleMessage(event)\<close>, for an event with origin \<open>origin\<close> and data \<open>message\<close>.
  A type without a string conversion is no string, so it reaches the default branch of
  the \<open>switch\<close>, whose log line throws, unless \<open>logEvent\<close> has thrown on it before.
\<close>

definition handleMessage :: "env \<Rightarrow> string \<Rightarrow> jsval \<Rightarrow> world \<Rightarrow> world \<times> effect list" where
  "handleMessage e origin message w =
    (let (w1, es1) = storeOrigin origin w
     in if \<not> truthy message \<or> typeof message \<noteq> ''object'' \<or> \<not> truthy (getprop message ''type'')
        then (w1, es1)
        else
          let (w2, es2) = dispatch e message w1
          in (w2, es1 @ [LogEvent ''incoming'' message] @ es2))"

subsection \<open>Iframe management, wallet, timers\<close>

definition loadIframe :: "env \<Rightarrow> world \<Rightarrow> world \<times> effect list" where
  "loadIframe e w =
    (if orDefault (tlendUrl e) [] = [] then (w, [LogInfo ''Please enter a TLend URL''])
     else if \<not> iframeContainer e then (w, [])
     else (updateTLendState LOADING
             (w\<lparr>iframeLoaded := False, tlendState := None, tlendOrigin := None,
                tlendVersion := JNull, tlendCapabilities := JArr [],
                pendingRequests := Map.empty, iframe := True\<rparr>),
           [LogInfo ''Loading TLend iframe'']))"

definition reloadIframe :: "world \<Rightarrow> world \<times> effect list" where
  "reloadIframe w =
    (if iframe w
     then (updateTLendState LOADING
             (w\<lparr>iframeLoaded := False, tlendState := None, pendingRequests := Map.empty\<rparr>),
           [LogInfo ''Reloading iframe''])
     else (w, []))"

definition forceSetReady :: "world \<Rightarrow> world \<times> effect list" where
  "forceSetReady w =
    (updateTLendState READY (w\<lparr>iframeLoaded := True\<rparr>), [LogInfo ''Manually set to READY state''])"

text \<open>The \<open>onload\<close> handler that \<open>loadIframe\<close> installs on the iframe.\<close>

definition iframeOnload :: "env \<Rightarrow> world \<Rightarrow> world \<times> effect list" where
  "iframeOnload e w =
    (if \<not> iframeLoaded w
     then (if autoReadyMode e = Some ''immediate'' \<and> isSkipAuth e
           then (snd (setTimeout OnloadAutoReady 2000 w), [LogInfo ''Iframe loaded (no TLEND_LOADED received yet)''])
           else (w, [LogInfo ''Iframe loaded (no TLEND_LOADED received yet)'']))
     else (w, []))"

definition onloadAutoReady :: "world \<Rightarrow> world \<times> effect list" where
  "onloadAutoReady w =
    (if \<not> iframeLoaded w
     then (updateTLendState READY (w\<lparr>iframeLoaded := True\<rparr>),
           [LogInfo ''Auto-setting READY (iframe loaded, immediate mode)''])
     else (w, []))"

text \<open>
  The callback given to \<open>onStatusChange\<close>.  The wallet object comes from the TON Connect
  library: \<open>Connected account proof\<close> has the account object and, when
  \<open>connectItems.tonProof\<close> carries one, the proof.
\<close>

datatype wallet_status = Disconnected | Connected jsval "jsval option"

definition onStatusChange :: "env \<Rightarrow> wallet_status \<Rightarrow> world \<Rightarrow> world \<times> effect list" where
  "onStatusChange e wallet w =
    (case wallet of
       Connected account proof \<Rightarrow>
         (let w1 = w\<lparr>walletConnected := True, walletAddress := getprop account ''address'',
                      walletAccount := account\<rparr>;
              w2 = (case proof of Some p \<Rightarrow> w1\<lparr>tonProof := p\<rparr> | None \<Rightarrow> w1)
          in if logAddressThrows e (walletAddress w2) then (w2, [Uncaught])
             else (w2, [LogInfo ''Wallet connected'']))
     | Disconnected \<Rightarrow>
         (let w1 = w\<lparr>walletConnected := False, walletAddress := JNull, walletAccount := JNull,
                      tonProof := JNull\<rparr>
          in if walletConnected w \<and> iframeLoaded w1
             then (let (w2, es) = sendDisconnect e (JStr ''user_initiated'') w1
                   in (w2, LogInfo ''Wallet disconnected'' # es))
             else (w1, [LogInfo ''Wallet disconnected''])))"

fun runTask :: "env \<Rightarrow> task \<Rightarrow> world \<Rightarrow> world \<times> effect list" where
  "runTask e (AuthCheckTimeout rid) w = handleAuthCheckTimeout rid w"
| "runTask e (AuthCredentialsTimeout rid) w = handleAuthCredentialsTimeout e rid w"
| "runTask e SendAuthCredentials w = sendAuthCredentials e w"
| "runTask e SendAuthCheckRequest w = sendAuthCheckRequest e w"
| "runTask e SendStylesUpgrade w = sendStylesUpgrade e w"
| "runTask e SendSetLogo w = sendSetLogo e w"
| "runTask e SetReadyImmediately w =
     (updateTLendState READY w, [LogInfo ''Setting READY state immediately''])"
| "runTask e (MockRepayResult rid) w = mockRepayResult e rid w"
| "runTask e OnloadAutoReady w = onloadAutoReady w"

text \<open>A timeout fires: it leaves the table of scheduled timeouts and its closure runs.\<close>

definition fireTimer :: "env \<Rightarrow> nat \<Rightarrow> world \<Rightarrow> world \<times> effect list" where
  "fireTimer e h w =
    (case timers w h of
       None \<Rightarrow> (w, [])
     | Some (delay, t) \<Rightarrow> runTask e t (clearTimeout h w))"

subsection \<open>Everything that can happen to the page\<close>

text \<open>
  One action is one run of the script to completion: a \<open>message\<close> event, a timeout, a
  wallet status change, the settling of a signing request, a click on one of the bound
  controls, or a call through \<open>window.PartnerMock\<close> (where \<open>sendDisconnect\<close> and
  \<open>rejectRepayRequest\<close> take any argument).  The functions that neither write
  \<open>state\<close> nor post to the iframe (the challenge fetch, the connect modal, the event log,
  the button states) are not actions.
\<close>

datatype action =
    Message string jsval
  | Timer nat
  | StatusChange wallet_status
  | SignSettled jsval sign_outcome
  | TonConnectCreated
  | LoadIframe
  | ReloadIframe
  | IframeOnload
  | ForceSetReady
  | CallSendStylesUpgrade
  | CallSendSetLogo
  | CallSendAuthCheckRequest
  | CallSendAuthCredentials
  | CallSendDisconnect jsval
  | CallApproveRepayRequest
  | CallRejectRepayRequest jsval
  | ThemeChange

fun step :: "env \<Rightarrow> action \<Rightarrow> world \<Rightarrow> world \<times> effect list" where
  "step e (Message origin message) w = handleMessage e origin message w"
| "step e (Timer h) w = fireTimer e h w"
| "step e (StatusChange wallet) w = onStatusChange e wallet w"
| "step e (SignSettled rid outcome) w = approveSettled e rid outcome w"
| "step e TonConnectCreated w = (w\<lparr>tonConnectUI := True\<rparr>, [LogInfo ''TON Connect UI initialized''])"
| "step e LoadIframe w = loadIframe e w"
| "step e ReloadIframe w = reloadIframe w"
| "step e IframeOnload w = iframeOnload e w"
| "step e ForceSetReady w = forceSetReady w"
| "step e CallSendStylesUpgrade w = sendStylesUpgrade e w"
| "step e CallSendSetLogo w = sendSetLogo e w"
| "step e CallSendAuthCheckRequest w = sendAuthCheckRequest e w"
| "step e CallSendAuthCredentials w = sendAuthCredentials e w"
| "step e (CallSendDisconnect reason) w = sendDisconnect e reason w"
| "step e CallApproveRepayRequest w = approveRepayRequest e w"
| "step e (CallRejectRepayRequest reason) w = rejectRepayRequest e reason w"
| "step e ThemeChange w = (if iframeLoaded w then sendStylesUpgrade e w else (w, []))"

text \<open>A run: each action with the environment it meets; the effects in order.\<close>

fun run :: "(env \<times> action) list \<Rightarrow> world \<Rightarrow> world \<times> effect list" where
  "run [] w = (w, [])"
| "run ((e, a) # rest) w =
    (let (w1, es1) = step e a w; (w2, es2) = run rest w1 in (w2, es1 @ es2))"

section \<open>The challenge payload\<close>

subsection \<open>SHA-256 and HMAC\<close>

text \<open>
  \<open>crypto.createHmac('sha256', key)\<close> is HMAC (RFC 2104) over SHA-256 (FIPS 180-4), on
  bytes.  Words are 32 bits and big-endian; additions wrap.
\<close>

type_synonym byte = "8 word"
type_synonym u32 = "32 word"

definition rotr :: "nat \<Rightarrow> u32 \<Rightarrow> u32" where
  "rotr n x = drop_bit n x OR push_bit (32 - n) x"

definition ch :: "u32 \<Rightarrow> u32 \<Rightarrow> u32 \<Rightarrow> u32" where
  "ch x y z = (x AND y) XOR (NOT x AND z)"

definition maj :: "u32 \<Rightarrow> u32 \<Rightarrow> u32 \<Rightarrow> u32" where
  "maj x y z = (x AND y) XOR (x AND z) XOR (y AND z)"

definition bigSigma0 :: "u32 \<Rightarrow> u32" where
  "bigSigma0 x = rotr 2 x XOR rotr 13 x XOR rotr 22 x"

definition bigSigma1 :: "u32 \<Rightarrow> u32" where
  "bigSigma1 x = rotr 6 x XOR rotr 11 x XOR rotr 25 x"

definition smallSigma0 :: "u32 \<Rightarrow> u32" where
  "smallSigma0 x = rotr 7 x XOR rotr 18 x XOR drop_bit 3 x"

definition smallSigma1 :: "u32 \<Rightarrow> u32" where
  "smallSigma1 x = rotr 17 x XOR rotr 19 x XOR drop_bit 10 x"

definition sha256K :: "u32 list" where
  "sha256K =
   [0x428A2F98, 0x71374491, 0xB5C0FBCF, 0xE9B5DBA5, 0x3956C25B, 0x59F111F1, 0x923F82A4, 0xAB1C5ED5,
    0xD807AA98, 0x12835B01, 0x243185BE, 0x550C7DC3, 0x72BE5D74, 0x80DEB1FE, 0x9BDC06A7, 0xC19BF174,
    0xE49B69C1, 0xEFBE4786, 0x0FC19DC6, 0x240CA1CC, 0x2DE92C6F, 0x4A7484AA, 0x5CB0A9DC, 0x76F988DA,
    0x983E5152, 0xA831C66D, 0xB00327C8, 0xBF597FC7, 0xC6E00BF3, 0xD5A79147, 0x06CA6351, 0x14292967,
    0x27B70A85, 0x2E1B2138, 0x4D2C6DFC, 0x53380D13, 0x650A7354, 0x766A0ABB, 0x81C2C92E, 0x92722C85,
    0xA2BFE8A1, 0xA81A664B, 0xC24B8B70, 0xC76C51A3, 0xD192E819, 0xD6990624, 0xF40E3585, 0x106AA070,
    0x19A4C116, 0x1E376C08, 0x2748774C, 0x34B0BCB5, 0x391C0CB3, 0x4ED8AA4A, 0x5B9CCA4F, 0x682E6FF3,
    0x748F82EE, 0x78A5636F, 0x84C87814, 0x8CC70208, 0x90BEFFFA, 0xA4506CEB, 0xBEF9A3F7, 0xC67178F2]"

type_synonym sha_state = "u32 \<times> u32 \<times> u32 \<times> u32 \<times> u32 \<times> u32 \<times> u32 \<times> u32"

definition sha256Init :: sha_state where
  "sha256Init = (0x6a09e667, 0xbb67ae85, 0x3c6ef372, 0xa54ff53a,
                 0x510e527f, 0x9b05688c, 0x1f83d9ab, 0x5be0cd19)"

fun schedule :: "nat \<Rightarrow> u32 list \<Rightarrow> u32 list" where
  "schedule 0 ws = ws"
| "schedule (Suc n) ws =
    (let l = length ws
     in schedule n (ws @ [smallSigma1 (ws ! (l - 2)) + ws ! (l - 7)
                          + smallSigma0 (ws ! (l - 15)) + ws ! (l - 16)]))"

fun round :: "sha_state \<Rightarrow> u32 \<times> u32 \<Rightarrow> sha_state" where
  "round (a, b, c, d, e, f, g, h) (k, w) =
    (let t1 = h + bigSigma1 e + ch e f g + k + w;
         t2 = bigSigma0 a + maj a b c
     in (t1 + t2, a, b, c, d + t1, e, f, g))"

fun addState :: "sha_state \<Rightarrow> sha_state \<Rightarrow> sha_state" where
  "addState (a, b, c, d, e, f, g, h) (a', b', c', d', e', f', g', h') =
    (a + a', b + b', c + c', d + d', e + e', f + f', g + g', h + h')"

definition compress :: "sha_state \<Rightarrow> u32 list \<Rightarrow> sha_state" where
  "compress s block = addState s (foldl round s (zip sha256K (schedule 48 block)))"

fun wordsOf :: "byte list \<Rightarrow> u32 list" where
  "wordsOf (b0 # b1 # b2 # b3 # rest) =
    (push_bit 24 (ucast b0) OR push_bit 16 (ucast b1) OR push_bit 8 (ucast b2) OR ucast b3) # wordsOf rest"
| "wordsOf bs = []"

definition bytesOf :: "u32 \<Rightarrow> byte list" where
  "bytesOf w = [ucast (drop_bit 24 w), ucast (drop_bit 16 w), ucast (drop_bit 8 w), ucast w]"

definition lengthBytes :: "64 word \<Rightarrow> byte list" where
  "lengthBytes w = map (\<lambda>i. ucast (drop_bit (8 * i) w)) [7, 6, 5, 4, 3, 2, 1, 0]"

definition sha256Pad :: "byte list \<Rightarrow> byte list" where
  "sha256Pad msg =
    msg @ [0x80] @ replicate ((119 - length msg mod 64) mod 64) 0
      @ lengthBytes (word_of_nat (length msg * 8))"

function blocks :: "byte list \<Rightarrow> byte list list" where
  "blocks bs = (if length bs < 64 then [] else take 64 bs # blocks (drop 64 bs))"
  by pat_completeness auto
termination
  by (relation "measure length") auto

declare blocks.simps [simp del]

fun digest :: "sha_state \<Rightarrow> byte list" where
  "digest (a, b, c, d, e, f, g, h) =
    bytesOf a @ bytesOf b @ bytesOf c @ bytesOf d @ bytesOf e @ bytesOf f @ bytesOf g @ bytesOf h"

definition sha256 :: "byte list \<Rightarrow> byte list" where
  "sha256 msg = digest (foldl (\<lambda>s b. compress s (wordsOf b)) sha256Init (blocks (sha256Pad msg)))"

definition hmacSha256 :: "byte list \<Rightarrow> byte list \<Rightarrow> byte list" where
  "hmacSha256 key msg =
    (let k0 = (if length key > 64 then sha256 key else key);
         k = k0 @ replicate (64 - length k0) 0
     in sha256 (map (\<lambda>b. b XOR 0x5c) k @ sha256 (map (\<lambda>b. b XOR 0x36) k @ msg)))"

subsection \<open>Buffers\<close>

text \<open>
  \<open>Buffer.from(s, 'hex')\<close> decodes pairs of hexadecimal digits of either case and stops
  at the first pair that is not one, or at a last single character;
  \<open>buf.toString('hex')\<close> writes two lower-case digits per byte.
  \<open>crypto.timingSafeEqual\<close> throws a RangeError on buffers of different lengths, and
  otherwise says whether they are equal.
\<close>

datatype node_error = RangeError

definition unhex :: "char \<Rightarrow> nat option" where
  "unhex c =
    (let n = (of_char c :: nat)
     in if 48 \<le> n \<and> n \<le> 57 then Some (n - 48)
        else if 97 \<le> n \<and> n \<le> 102 then Some (n - 87)
        else if 65 \<le> n \<and> n \<le> 70 then Some (n - 55)
        else None)"

fun hexDecode :: "string \<Rightarrow> byte list" where
  "hexDecode (a # b # rest) =
    (case unhex a of
       None \<Rightarrow> []
     | Some x \<Rightarrow> (case unhex b of None \<Rightarrow> [] | Some y \<Rightarrow> word_of_nat (16 * x + y) # hexDecode rest))"
| "hexDecode s = []"

fun hexEncode :: "byte list \<Rightarrow> string" where
  "hexEncode [] = []"
| "hexEncode (b # bs) = digitChar (unat b div 16) # digitChar (unat b mod 16) # hexEncode bs"

text \<open>
  \<open>buf.writeUInt32BE(n, 0)\<close> on a fresh 4-byte buffer and \<open>buf.readUInt32BE(0)\<close>.
  Writing throws a RangeError for a value that does not fit 32 bits, reading for a
  buffer shorter than 4 bytes.
\<close>

definition writeUInt32BE :: "nat \<Rightarrow> node_error + byte list" where
  "writeUInt32BE n =
    (if n < 4294967296
     then Inr [word_of_nat (n div 16777216), word_of_nat (n div 65536), word_of_nat (n div 256),
               word_of_nat n]
     else Inl RangeError)"

fun readUInt32BE :: "byte list \<Rightarrow> node_error + nat" where
  "readUInt32BE (b0 # b1 # b2 # b3 # rest) =
     Inr (16777216 * unat b0 + 65536 * unat b1 + 256 * unat b2 + unat b3)"
| "readUInt32BE bs = Inl RangeError"

definition timingSafeEqual :: "byte list \<Rightarrow> byte list \<Rightarrow> node_error + bool" where
  "timingSafeEqual a b = (if length a \<noteq> length b then Inl RangeError else Inr (a = b))"

subsection \<open>Issuing and verifying\<close>

text \<open>
  \<open>generatePayload\<close> and \<open>verifyPartnerPayload\<close> of the RFC, section 12.3.  Both read
  the clock once; \<open>nowMs\<close> is the value of \<open>Date.now()\<close>.
\<close>

definition generatePayload :: "nat \<Rightarrow> byte list \<Rightarrow> node_error + string" where
  "generatePayload nowMs sharedSecret =
    (let expirationTime = nowMs div 1000 + 15 * 60
     in case writeUInt32BE expirationTime of
          Inl err \<Rightarrow> Inl err
        | Inr expirationBuffer \<Rightarrow>
            let signature = take 28 (hmacSha256 sharedSecret expirationBuffer)
            in Inr (hexEncode (expirationBuffer @ signature)))"

definition verifyPartnerPayload :: "nat \<Rightarrow> string \<Rightarrow> byte list \<Rightarrow> node_error + bool" where
  "verifyPartnerPayload nowMs payloadHex sharedSecret =
    (let payloadBuffer = hexDecode payloadHex
     in if length payloadBuffer < 32 then Inr False
        else
          case readUInt32BE payloadBuffer of
            Inl err \<Rightarrow> Inl err
          | Inr expirationTimestamp \<Rightarrow>
              let now = nowMs div 1000
              in if expirationTimestamp \<le> now \<or> expirationTimestamp > now + 30 * 60 then Inr False
                 else
                   let receivedSignature = take 28 (drop 4 payloadBuffer)
                   in case writeUInt32BE expirationTimestamp of
                        Inl err \<Rightarrow> Inl err
                      | Inr expirationBuffer \<Rightarrow>
                          timingSafeEqual receivedSignature
                            (take 28 (hmacSha256 sharedSecret expirationBuffer)))"

section \<open>Notions used in the statements\<close>

text \<open>Every message posted by a list of effects goes to the target origin \<open>t\<close>.\<close>

definition sendsTo :: "string \<Rightarrow> effect list \<Rightarrow> bool" where
  "sendsTo t es = list_all (\<lambda>p. snd p = t) (posted es)"

text \<open>
  A run from \<open>w\<close> with result \<open>r\<close> leaves the stored origin and the allow-list alone
  and posts only to the target origin of \<open>w\<close>.
\<close>

definition keeps :: "world \<Rightarrow> world \<times> effect list \<Rightarrow> bool" where
  "keeps w r = (tlendOrigin (fst r) = tlendOrigin w \<and> TLEND_ORIGINS (fst r) = TLEND_ORIGINS w \<and>
                sendsTo (targetOrigin w) (snd r))"

fun isMessage :: "action \<Rightarrow> bool" where
  "isMessage (Message origin m) = True"
| "isMessage a = False"

text \<open>
  The malformed payloads, in the words of the specification: input that is not an
  object; a \<open>type\<close> that is missing or not a string; a \<open>timestamp\<close> that is missing or not
  a number; a \<open>type\<close> that is none of the thirteen.
\<close>

fun nonObject :: "jsval \<Rightarrow> bool" where
  "nonObject (JObj kvs) = False"
| "nonObject v = True"

fun isStr :: "jsval \<Rightarrow> bool" where
  "isStr (JStr s) = True"
| "isStr v = False"

fun isNumber :: "jsval \<Rightarrow> bool" where
  "isNumber (JNum n) = True"
| "isNumber JNaN = True"
| "isNumber v = False"

definition badType :: "jsval \<Rightarrow> bool" where
  "badType v = (\<not> isStr (getprop v ''type''))"

definition badTimestamp :: "jsval \<Rightarrow> bool" where
  "badTimestamp v = (\<not> isNumber (getprop v ''timestamp''))"

definition unknownType :: "jsval \<Rightarrow> bool" where
  "unknownType v = (case getprop v ''type'' of JStr t \<Rightarrow> t \<notin> set validTypes | _ \<Rightarrow> False)"

definition malformed :: "jsval \<Rightarrow> bool" where
  "malformed v = (nonObject v \<or> badType v \<or> badTimestamp v \<or> unknownType v)"

text \<open>The reasons an \<open>AUTH_REQUEST\<close> carries, as \<open>AuthRequestMessage\<close> lists them.\<close>

definition reauthReasons :: "string list" where
  "reauthReasons = [''jwt_expired'', ''session_invalid'', ''storage_unavailable'']"

text \<open>An optional string field, as \<open>currentAddress?: string\<close> in the message types.\<close>

fun absentOrString :: "jsval \<Rightarrow> bool" where
  "absentOrString JUndefined = True"
| "absentOrString (JStr s) = True"
| "absentOrString v = False"

subsection \<open>Sample inputs\<close>

definition sampleEnv :: env where
  "sampleEnv =
    \<lparr> now = 1734280000000, rnd = ''k3j9x2m1q'', rndSignatureHex = ''00'', rndPublicKey = ''00'',
      rndStateInit = ''AA=='', rndSignature = ''AA=='', rndTxHash = ''ab'',
      autoReadyMode = None, skipAuth = None, partnerTheme = None, logoMode = None,
      partnerName = None, partnerId = None, tlendUrl = Some ''https://app-test.tlend.co'',
      iframeContainer = True, repayPanel = True, repayModal = True, looseLe16 = (\<lambda>v. False),
      typeErrorMessage = ''Cannot read properties of undefined'',
      urlParses = isPrefix ''https://'' \<rparr>"

text \<open>The page after the iframe has been loaded and a first message from TLend has been seen.\<close>

definition loadedWorld :: world where
  "loadedWorld = initialWorld\<lparr>iframe := True, iframeLoaded := True, tlendState := Some READY,
                               tlendOrigin := Some ''https://tlend.co''\<rparr>"

definition sampleSecret :: "byte list" where
  "sampleSecret = [0x73, 0x65, 0x63, 0x72, 0x65, 0x74]"

definition sampleRepay :: repay_request where
  "sampleRepay = \<lparr>rr_requestId = JStr ''repay-1'', rr_payload = JObj [(''lendId'', JNum 7)],
                  rr_timestamp = 1734280000000\<rparr>"

section \<open>Verified properties\<close>

subsection \<open>Auxiliary facts: effects\<close>

lemma posted_simps [simp]:
  "posted [] = []"
  "posted (PostMessage m t # es) = (m, t) # posted es"
  "posted (LogInfo s # es) = posted es"
  "posted (LogEvent d v # es) = posted es"
  "posted (ShowRepayPanel v # es) = posted es"
  "posted (ShowRepayModal v # es) = posted es"
  "posted (HideRepay # es) = posted es"
  "posted (AwaitSign r v # es) = posted es"
  "posted (Uncaught # es) = posted es"
  "posted (es @ es') = posted es @ posted es'"
  by (simp_all add: posted_def)

lemma sendsTo_simps [simp]:
  "sendsTo t []"
  "sendsTo t (PostMessage m t' # es) = (t' = t \<and> sendsTo t es)"
  "sendsTo t (LogInfo s # es) = sendsTo t es"
  "sendsTo t (LogEvent d v # es) = sendsTo t es"
  "sendsTo t (ShowRepayPanel v # es) = sendsTo t es"
  "sendsTo t (ShowRepayModal v # es) = sendsTo t es"
  "sendsTo t (HideRepay # es) = sendsTo t es"
  "sendsTo t (AwaitSign r v # es) = sendsTo t es"
  "sendsTo t (Uncaught # es) = sendsTo t es"
  "sendsTo t (es @ es') = (sendsTo t es \<and> sendsTo t es')"
  by (auto simp add: sendsTo_def)

lemma sendToTLend_sendsTo [simp]:
  "sendsTo t (sendToTLend e m w)
     = (iframe w \<and> \<not> postMessageThrows e (targetOrigin w) \<longrightarrow> targetOrigin w = t)"
  by (simp add: sendToTLend_def)

lemma showRepay_posted [simp]:
  "posted (showRepay e payload) = []"
  "sendsTo t (showRepay e payload)"
  by (simp_all add: showRepay_def)

lemma targetOrigin_upd [simp]:
  "targetOrigin (w\<lparr>timers := a\<rparr>) = targetOrigin w"
  "targetOrigin (w\<lparr>nextTimer := b\<rparr>) = targetOrigin w"
  "targetOrigin (w\<lparr>pendingRequests := c\<rparr>) = targetOrigin w"
  "targetOrigin (w\<lparr>pendingRepayRequest := d\<rparr>) = targetOrigin w"
  "targetOrigin (w\<lparr>tlendState := f\<rparr>) = targetOrigin w"
  "targetOrigin (w\<lparr>iframeLoaded := g\<rparr>) = targetOrigin w"
  "targetOrigin (w\<lparr>walletConnected := h\<rparr>) = targetOrigin w"
  "targetOrigin (w\<lparr>walletAddress := i\<rparr>) = targetOrigin w"
  "targetOrigin (w\<lparr>walletAccount := j\<rparr>) = targetOrigin w"
  "targetOrigin (w\<lparr>tonProof := k\<rparr>) = targetOrigin w"
  "targetOrigin (w\<lparr>tlendVersion := l\<rparr>) = targetOrigin w"
  "targetOrigin (w\<lparr>tlendCapabilities := m\<rparr>) = targetOrigin w"
  "targetOrigin (w\<lparr>tonConnectUI := n\<rparr>) = targetOrigin w"
  by (simp_all add: targetOrigin_def)

subsection \<open>Auxiliary facts: the message handler\<close>

lemma storeOrigin_fields:
  "iframeLoaded (fst (storeOrigin origin w)) = iframeLoaded w"
  "tlendState (fst (storeOrigin origin w)) = tlendState w"
  "walletConnected (fst (storeOrigin origin w)) = walletConnected w"
  "walletAddress (fst (storeOrigin origin w)) = walletAddress w"
  "walletAccount (fst (storeOrigin origin w)) = walletAccount w"
  "tonProof (fst (storeOrigin origin w)) = tonProof w"
  "pendingRequests (fst (storeOrigin origin w)) = pendingRequests w"
  "pendingRepayRequest (fst (storeOrigin origin w)) = pendingRepayRequest w"
  "iframe (fst (storeOrigin origin w)) = iframe w"
  "timers (fst (storeOrigin origin w)) = timers w"
  "nextTimer (fst (storeOrigin origin w)) = nextTimer w"
  "tonConnectUI (fst (storeOrigin origin w)) = tonConnectUI w"
  by (simp_all add: storeOrigin_def)

lemma storeOrigin_posted: "posted (snd (storeOrigin origin w)) = []"
  by (simp add: storeOrigin_def)

lemma storeOrigin_stored:
  assumes "tlendOrigin w = Some origin'" and "origin' \<noteq> []"
  shows "storeOrigin origin w = (w, [])"
  using assms by (simp add: storeOrigin_def)

lemma storeOrigin_fresh:
  assumes "tlendOrigin w = None"
  shows "tlendOrigin (fst (storeOrigin origin w)) = Some origin \<and>
         TLEND_ORIGINS (fst (storeOrigin origin w))
           = (if origin \<in> set (TLEND_ORIGINS w) then TLEND_ORIGINS w else TLEND_ORIGINS w @ [origin])"
  using assms by (simp add: storeOrigin_def)

lemma handleMessage_unfold:
  "handleMessage e origin message w =
    (if \<not> truthy message \<or> typeof message \<noteq> ''object'' \<or> \<not> truthy (getprop message ''type'')
     then storeOrigin origin w
     else (fst (dispatch e message (fst (storeOrigin origin w))),
           snd (storeOrigin origin w) @ [LogEvent ''incoming'' message]
             @ snd (dispatch e message (fst (storeOrigin origin w)))))"
  by (simp add: handleMessage_def split: prod.splits)

lemma handleMessage_dispatch:
  assumes "getprop message ''type'' = JStr t" and "t \<noteq> []"
  shows "handleMessage e origin message w =
          (fst (dispatch e message (fst (storeOrigin origin w))),
           snd (storeOrigin origin w) @ [LogEvent ''incoming'' message]
             @ snd (dispatch e message (fst (storeOrigin origin w))))"
proof -
  obtain kvs where "message = JObj kvs"
    using assms by (cases message) auto
  then show ?thesis
    using assms by (simp add: handleMessage_unfold)
qed

subsection \<open>Auxiliary facts: who a run posts to\<close>

lemma keeps_sendStylesUpgrade: "keeps w (sendStylesUpgrade e w)"
  by (simp add: keeps_def sendStylesUpgrade_def Let_def)

lemma keeps_sendSetLogo: "keeps w (sendSetLogo e w)"
  by (simp add: keeps_def sendSetLogo_def Let_def)

lemma keeps_sendDisconnect: "keeps w (sendDisconnect e r w)"
  by (simp add: keeps_def sendDisconnect_def sendThrows_def Let_def)

lemma keeps_sendAuthCheckRequest: "keeps w (sendAuthCheckRequest e w)"
  by (simp add: keeps_def sendAuthCheckRequest_def Let_def setTimeout_def)

lemma keeps_sendAuthCredentials: "keeps w (sendAuthCredentials e w)"
  by (simp add: keeps_def sendAuthCredentials_def Let_def setTimeout_def)

lemma keeps_handleAuthCheckTimeout: "keeps w (handleAuthCheckTimeout rid w)"
  by (simp add: keeps_def handleAuthCheckTimeout_def split: option.splits)

lemma keeps_handleAuthCredentialsTimeout: "keeps w (handleAuthCredentialsTimeout e rid w)"
  by (simp add: keeps_def handleAuthCredentialsTimeout_def updateTLendState_def Let_def split: option.splits)

lemma clearPending_origin [simp]:
  "tlendOrigin (clearPending r w) = tlendOrigin w"
  "TLEND_ORIGINS (clearPending r w) = TLEND_ORIGINS w"
  "targetOrigin (clearPending r w) = targetOrigin w"
  by (simp_all add: clearPending_def clearTimeout_def split: jsval.splits option.splits)

lemma keeps_handleAuthCheckResponse: "keeps w (handleAuthCheckResponse e m w)"
  by (simp add: keeps_def handleAuthCheckResponse_def updateTLendState_def setTimeout_def Let_def)

lemma keeps_handleAuthResult: "keeps w (handleAuthResult e m w)"
  by (simp add: keeps_def handleAuthResult_def updateTLendState_def Let_def)

lemma keeps_handleAuthRequest: "keeps w (handleAuthRequest e m w)"
  using keeps_sendDisconnect [of w e "JStr ''session_expired''"]
  by (auto simp add: keeps_def handleAuthRequest_def updateTLendState_def setTimeout_def Let_def
      split: prod.splits)

lemma keeps_handleRepayRequest: "keeps w (handleRepayRequest e m w)"
  by (simp add: keeps_def handleRepayRequest_def)

lemma keeps_handleTLendLoaded: "keeps w (handleTLendLoaded e m w)"
  by (simp add: keeps_def handleTLendLoaded_def updateTLendState_def setTimeout_def Let_def
      split: jsval.splits)

lemma keeps_handleTLendReady: "keeps w (handleTLendReady e m w)"
  by (simp add: keeps_def handleTLendReady_def updateTLendState_def setTimeout_def Let_def)

lemma keeps_handleError: "keeps w (handleError e m w)"
  by (simp add: keeps_def handleError_def updateTLendState_def Let_def)

lemma keeps_dispatch: "keeps w (dispatch e m w)"
  using keeps_handleTLendLoaded keeps_handleAuthCheckResponse keeps_handleAuthResult
    keeps_handleTLendReady keeps_handleRepayRequest keeps_handleAuthRequest keeps_handleError
  by (simp add: dispatch_def Let_def) (simp add: keeps_def)


lemma keeps_approveRepayRequest: "keeps w (approveRepayRequest e w)"
  by (simp add: keeps_def approveRepayRequest_def simulateRepay_def cleanUpRepay_def
      setTimeout_def Let_def split: option.splits)

lemma keeps_approveSettled: "keeps w (approveSettled e r outcome w)"
  by (simp add: keeps_def approveSettled_def cleanUpRepay_def split: sign_outcome.splits)

lemma keeps_rejectRepayRequest: "keeps w (rejectRepayRequest e r w)"
  by (simp add: keeps_def rejectRepayRequest_def cleanUpRepay_def Let_def split: option.splits)

lemma keeps_mockRepayResult: "keeps w (mockRepayResult e r w)"
  by (simp add: keeps_def mockRepayResult_def)

lemma keeps_onloadAutoReady: "keeps w (onloadAutoReady w)"
  by (simp add: keeps_def onloadAutoReady_def updateTLendState_def)

lemma keeps_runTask: "keeps w (runTask e t w)"
  using keeps_handleAuthCheckTimeout keeps_handleAuthCredentialsTimeout keeps_sendAuthCredentials
    keeps_sendAuthCheckRequest keeps_sendStylesUpgrade keeps_sendSetLogo keeps_mockRepayResult
    keeps_onloadAutoReady
  by (cases t) (simp_all add: keeps_def updateTLendState_def)

lemma keeps_fireTimer: "keeps w (fireTimer e h w)"
proof (cases "timers w h")
  case None
  then show ?thesis by (simp add: fireTimer_def keeps_def)
next
  case (Some dt)
  obtain d t where dt: "dt = (d, t)" by (cases dt)
  have "keeps (clearTimeout h w) (runTask e t (clearTimeout h w))"
    by (rule keeps_runTask)
  then show ?thesis
    using Some dt by (simp add: fireTimer_def keeps_def clearTimeout_def)
qed

lemma keeps_onStatusChange: "keeps w (onStatusChange e s w)"
proof (cases s)
  case Disconnected
  let ?w1 = "w\<lparr>walletConnected := False, walletAddress := JNull, walletAccount := JNull, tonProof := JNull\<rparr>"
  have "keeps ?w1 (sendDisconnect e (JStr ''user_initiated'') ?w1)"
    by (rule keeps_sendDisconnect)
  then show ?thesis
    using Disconnected by (auto simp add: onStatusChange_def keeps_def Let_def split: prod.splits)
next
  case (Connected acc pf)
  then show ?thesis
    by (simp add: onStatusChange_def keeps_def Let_def split: option.splits)
qed

lemma keeps_reloadIframe: "keeps w (reloadIframe w)"
  by (simp add: keeps_def reloadIframe_def updateTLendState_def)

lemma keeps_forceSetReady: "keeps w (forceSetReady w)"
  by (simp add: keeps_def forceSetReady_def updateTLendState_def)

lemma keeps_iframeOnload: "keeps w (iframeOnload e w)"
  by (simp add: keeps_def iframeOnload_def setTimeout_def)

lemma loadIframe_sendsTo: "sendsTo t (snd (loadIframe e w))"
  by (simp add: loadIframe_def)

lemma keeps_step:
  assumes "\<not> isMessage a" and "a \<noteq> LoadIframe"
  shows "keeps w (step e a w)"
  using assms keeps_fireTimer keeps_onStatusChange keeps_approveSettled keeps_reloadIframe
    keeps_iframeOnload keeps_forceSetReady keeps_sendStylesUpgrade keeps_sendSetLogo
    keeps_sendAuthCheckRequest keeps_sendAuthCredentials keeps_sendDisconnect
    keeps_approveRepayRequest keeps_rejectRepayRequest
  by (cases a) (simp_all add: keeps_def)

lemma keeps_handleMessage_stored:
  assumes "tlendOrigin w = Some origin'" and "origin' \<noteq> []"
  shows "keeps w (handleMessage e origin message w)"
  using keeps_dispatch [of w e message]
  by (simp add: handleMessage_unfold storeOrigin_stored [OF assms] keeps_def)

lemma step_keeps_stored:
  assumes "tlendOrigin w = Some origin" and "origin \<noteq> []" and "a \<noteq> LoadIframe"
  shows "tlendOrigin (fst (step e a w)) = Some origin \<and> sendsTo origin (snd (step e a w))"
proof -
  have t: "targetOrigin w = origin"
    using assms by (simp add: targetOrigin_def)
  have "keeps w (step e a w)"
  proof (cases "isMessage a")
    case True
    then obtain o' m where "a = Message o' m" by (cases a) auto
    then show ?thesis
      using keeps_handleMessage_stored [OF assms(1,2)] by simp
  next
    case False
    then show ?thesis using assms(3) by (rule keeps_step)
  qed
  then show ?thesis using assms(1) t by (simp add: keeps_def)
qed

lemma run_keeps_stored:
  assumes "tlendOrigin w = Some origin" and "origin \<noteq> []"
      and "list_all (\<lambda>ea. snd ea \<noteq> LoadIframe) acts"
  shows "tlendOrigin (fst (run acts w)) = Some origin \<and> sendsTo origin (snd (run acts w))"
  using assms
proof (induction acts arbitrary: w)
  case Nil
  then show ?case by simp
next
  case (Cons ea acts)
  obtain e a where ea: "ea = (e, a)" by (cases ea)
  have a: "a \<noteq> LoadIframe" using Cons.prems(3) ea by simp
  have s: "tlendOrigin (fst (step e a w)) = Some origin \<and> sendsTo origin (snd (step e a w))"
    using step_keeps_stored [OF Cons.prems(1,2) a] .
  have r: "tlendOrigin (fst (run acts (fst (step e a w)))) = Some origin \<and>
           sendsTo origin (snd (run acts (fst (step e a w))))"
    using Cons.IH [of "fst (step e a w)"] s Cons.prems(2,3) by simp
  show ?case
    using s r ea by (simp add: split_beta Let_def)
qed



subsection \<open>Messages from origins outside the allow-list\<close>

text \<open>
  Claim C1 asks that a message whose origin is not in \<open>CONFIG.TLEND_ORIGINS\<close> be
  dropped.  \<open>handleMessage\<close> never consults the list.  With \<open>https://tlend.co\<close> stored
  as the iframe's origin, an \<open>AUTH_REQUEST\<close> from \<open>https://evil.example\<close> is answered
  with a \<open>DISCONNECT\<close>, and an \<open>ERROR\<close> message from there moves the lifecycle state
  from \<open>READY\<close> to \<open>ERROR\<close>; the origin is in the allow-list neither before nor after.
\<close>

theorem unlisted_origin_is_processed:
  "''https://evil.example'' \<notin> set (TLEND_ORIGINS loadedWorld) \<and>
   tlendOrigin loadedWorld = Some ''https://tlend.co'' \<and>
   posted (snd (handleMessage sampleEnv ''https://evil.example''
      (JObj [(''type'', JStr ''AUTH_REQUEST''), (''timestamp'', JNum 1734280000000),
             (''payload'', JObj [(''reason'', JStr ''jwt_expired'')])]) loadedWorld))
     = [(JObj [(''type'', JStr ''DISCONNECT''), (''timestamp'', JNum 1734280000000),
               (''payload'', JObj [(''reason'', JStr ''session_expired'')])], ''https://tlend.co'')] \<and>
   tlendState loadedWorld = Some READY \<and>
   tlendState (fst (handleMessage sampleEnv ''https://evil.example''
      (JObj [(''type'', JStr ''ERROR''), (''timestamp'', JNum 1734280000000),
             (''payload'', JObj [(''code'', JStr ''X''), (''message'', JStr ''x''),
                                 (''recoverable'', JBool False)])]) loadedWorld)) = Some ERROR \<and>
   ''https://evil.example'' \<notin> set (TLEND_ORIGINS (fst (handleMessage sampleEnv ''https://evil.example''
      (JObj [(''type'', JStr ''ERROR''), (''timestamp'', JNum 1734280000000),
             (''payload'', JObj [(''code'', JStr ''X''), (''message'', JStr ''x''),
                                 (''recoverable'', JBool False)])]) loadedWorld)))"
  by (simp add: handleMessage_unfold storeOrigin_def dispatch_def handleAuthRequest_def
      handleError_def sendDisconnect_def sendThrows_def sendToTLend_def postMessageThrows_def
      targetOrigin_def updateTLendState_def loadedWorld_def initialWorld_def sampleEnv_def Let_def)

theorem unlisted_origin_is_processed_witness:
  "tlendState (fst (handleMessage sampleEnv ''https://evil.example''
      (JObj [(''type'', JStr ''ERROR''), (''timestamp'', JNum 1734280000000),
             (''payload'', JObj [(''code'', JStr ''X''), (''message'', JStr ''x''),
                                 (''recoverable'', JBool False)])]) loadedWorld))
     \<noteq> tlendState loadedWorld"
  using unlisted_origin_is_processed by simp

subsection \<open>Malformed payloads\<close>

lemma isIframeMessage_example:
  "isIframeMessage (JObj [(''type'', JStr ''TLEND_READY''), (''timestamp'', JNum 1734280000000)])"
  by (simp add: isIframeMessage_def isValidMessageType_def validTypes_def)

lemma malformed_not_message: "malformed v \<Longrightarrow> \<not> isIframeMessage v"
  by (cases v; cases "getprop v ''type''"; cases "getprop v ''timestamp''")
     (auto simp add: malformed_def badType_def badTimestamp_def unknownType_def
        isIframeMessage_def isValidMessageType_def)

lemma dispatch_unhandled:
  assumes "badType message \<or> unknownType message"
  shows "fst (dispatch e message w) = w \<and> posted (snd (dispatch e message w)) = []"
  using assms
  by (cases "getprop message ''type''")
     (simp_all add: dispatch_def badType_def unknownType_def validTypes_def)

lemma handle_malformed:
  assumes "nonObject v \<or> badType v \<or> unknownType v"
  shows "fst (handleMessage e origin v w) = fst (storeOrigin origin w) \<and>
         posted (snd (handleMessage e origin v w)) = []"
proof (cases "nonObject v")
  case True
  then have "\<not> truthy v \<or> typeof v \<noteq> ''object'' \<or> \<not> truthy (getprop v ''type'')"
    by (cases v) auto
  then show ?thesis
    by (simp add: handleMessage_unfold storeOrigin_posted)
next
  case False
  then have "badType v \<or> unknownType v" using assms by simp
  then show ?thesis
    by (simp add: handleMessage_unfold storeOrigin_posted dispatch_unhandled)
qed

text \<open>
  Claim C2, as the code has it.  \<open>isIframeMessage\<close> returns \<open>false\<close> for every malformed
  payload.  \<open>handleMessage\<close> has its own test: for input that is not an object, for a
  \<open>type\<close> that is missing or not a string, and for an unknown \<open>type\<close>, it does no more
  than record the sender's origin when none is stored, and posts nothing; with an origin
  stored the state is left as it was.  (It does not look at \<open>timestamp\<close>.)
\<close>

theorem malformed_payload_is_rejected:
  "(malformed v \<longrightarrow> \<not> isIframeMessage v) \<and>
   (nonObject v \<or> badType v \<or> unknownType v \<longrightarrow>
      fst (handleMessage e origin v w) = fst (storeOrigin origin w) \<and>
      posted (snd (handleMessage e origin v w)) = [] \<and>
      (tlendOrigin w = Some stored \<and> stored \<noteq> [] \<longrightarrow> fst (handleMessage e origin v w) = w))"
  using malformed_not_message [of v] handle_malformed [of v e origin w]
    storeOrigin_stored [of w stored origin]
  by auto

theorem malformed_payload_is_rejected_witness:
  "malformed (JObj [(''type'', JStr ''PING''), (''timestamp'', JNum 1734280000000)]) \<and>
   unknownType (JObj [(''type'', JStr ''PING''), (''timestamp'', JNum 1734280000000)]) \<and>
   \<not> isIframeMessage (JObj [(''type'', JStr ''PING''), (''timestamp'', JNum 1734280000000)]) \<and>
   fst (handleMessage sampleEnv ''https://tlend.co''
          (JObj [(''type'', JStr ''PING''), (''timestamp'', JNum 1734280000000)]) loadedWorld)
     = loadedWorld \<and>
   posted (snd (handleMessage sampleEnv ''https://tlend.co''
          (JObj [(''type'', JStr ''PING''), (''timestamp'', JNum 1734280000000)]) loadedWorld)) = []"
proof -
  let ?v = "JObj [(''type'', JStr ''PING''), (''timestamp'', JNum 1734280000000)]"
  have h: "malformed ?v" "unknownType ?v"
    by (simp_all add: malformed_def unknownType_def validTypes_def)
  have s: "tlendOrigin loadedWorld = Some ''https://tlend.co''"
    by (simp add: loadedWorld_def)
  show ?thesis
    using malformed_payload_is_rejected
      [of ?v sampleEnv "''https://tlend.co''" loadedWorld "''https://tlend.co''"] h s
    by (simp add: storeOrigin_stored [OF s])
qed

text \<open>
  The claim as written says that handling a malformed payload changes no state.  A
  \<open>TLEND_READY\<close> message without a \<open>timestamp\<close> is malformed, and \<open>handleMessage\<close>
  acts on it: the lifecycle state goes from \<open>LOADING\<close> to \<open>READY\<close>.
\<close>

theorem missing_timestamp_is_handled:
  "malformed (JObj [(''type'', JStr ''TLEND_READY'')]) \<and>
   \<not> isIframeMessage (JObj [(''type'', JStr ''TLEND_READY'')]) \<and>
   tlendState (loadedWorld\<lparr>tlendState := Some LOADING\<rparr>) = Some LOADING \<and>
   tlendState (fst (handleMessage sampleEnv ''https://tlend.co'' (JObj [(''type'', JStr ''TLEND_READY'')])
                      (loadedWorld\<lparr>tlendState := Some LOADING\<rparr>))) = Some READY"
  by (simp add: malformed_def badTimestamp_def isIframeMessage_def handleMessage_unfold
      storeOrigin_def dispatch_def handleTLendReady_def isSkipAuth_def updateTLendState_def
      loadedWorld_def initialWorld_def sampleEnv_def Let_def)

subsection \<open>Pending requests: reply and timeout\<close>

lemma clearPending_pending:
  "pendingRequests (clearPending (JStr rid) w) = (pendingRequests w)(rid := None)"
  by (auto simp add: clearPending_def clearTimeout_def split: option.splits)

lemma clearPending_absent:
  "pendingRequests w rid = None \<Longrightarrow> clearPending (JStr rid) w = w"
  by (simp add: clearPending_def)

lemma clearPending_idem:
  "clearPending (JStr rid) (clearPending (JStr rid) w) = clearPending (JStr rid) w"
  by (simp add: clearPending_absent clearPending_pending)

lemma clearPending_timer:
  "pendingRequests w rid = Some p \<Longrightarrow> timers (clearPending (JStr rid) w) = (timers w)(ptimeout p := None)"
  by (simp add: clearPending_def clearTimeout_def)

lemma response_pending:
  assumes "getprop reply ''requestId'' = JStr rid"
  shows "pendingRequests (fst (handleAuthCheckResponse e reply w)) = (pendingRequests w)(rid := None)"
  using assms
  by (simp add: handleAuthCheckResponse_def Let_def updateTLendState_def setTimeout_def
      clearPending_pending)

lemma result_pending:
  assumes "getprop reply ''requestId'' = JStr rid"
  shows "pendingRequests (fst (handleAuthResult e reply w)) = (pendingRequests w)(rid := None)"
  using assms
  by (simp add: handleAuthResult_def Let_def updateTLendState_def clearPending_pending)

lemma response_posts_nothing: "posted (snd (handleAuthCheckResponse e reply w)) = []"
  by (simp add: handleAuthCheckResponse_def Let_def)

lemma result_posts_nothing: "posted (snd (handleAuthResult e reply w)) = []"
  by (simp add: handleAuthResult_def Let_def)

lemma response_timer:
  assumes "getprop reply ''requestId'' = JStr rid" and "pendingRequests w rid = Some p"
  shows "timers (fst (handleAuthCheckResponse e reply w)) (ptimeout p) \<noteq> Some (5000, AuthCheckTimeout rid)"
  using assms
  by (simp add: handleAuthCheckResponse_def Let_def updateTLendState_def setTimeout_def
      clearPending_timer clearPending_def clearTimeout_def)

lemma result_timer:
  assumes "getprop reply ''requestId'' = JStr rid" and "pendingRequests w rid = Some p"
  shows "timers (fst (handleAuthResult e reply w)) (ptimeout p) = None"
  using assms
  by (simp add: handleAuthResult_def Let_def updateTLendState_def clearPending_def clearTimeout_def)

lemma response_after_clear:
  assumes "getprop reply ''requestId'' = JStr rid"
  shows "handleAuthCheckResponse e reply (clearPending (JStr rid) w) =
         handleAuthCheckResponse e reply w"
  using assms by (simp add: handleAuthCheckResponse_def clearPending_idem)

lemma result_after_clear:
  assumes "getprop reply ''requestId'' = JStr rid"
  shows "handleAuthResult e reply (clearPending (JStr rid) w) = handleAuthResult e reply w"
  using assms by (simp add: handleAuthResult_def clearPending_idem)

lemma issue_registers:
  assumes "truthy (walletAddress w)"
  shows "pendingRequests (fst (sendAuthCheckRequest e w)) (generateRequestId e ''auth-check'')
           = Some \<lparr>ptype = ''AUTH_CHECK'', ptimestamp = now e, ptimeout = nextTimer w\<rparr> \<and>
         timers (fst (sendAuthCheckRequest e w)) (nextTimer w)
           = Some (5000, AuthCheckTimeout (generateRequestId e ''auth-check'')) \<and>
         pendingRequests (fst (sendAuthCredentials e w)) (generateRequestId e ''auth-cred'')
           = Some \<lparr>ptype = ''AUTH_CREDENTIALS'', ptimestamp = now e, ptimeout = nextTimer w\<rparr> \<and>
         timers (fst (sendAuthCredentials e w)) (nextTimer w)
           = Some (30000, AuthCredentialsTimeout (generateRequestId e ''auth-cred''))"
  using assms
  by (simp add: sendAuthCheckRequest_def sendAuthCredentials_def setTimeout_def Let_def)

lemma timeout_fires:
  assumes "timers w h = Some (d, AuthCheckTimeout rid) \<or> timers w h = Some (d, AuthCredentialsTimeout rid)"
  shows "pendingRequests (fst (fireTimer e h w)) rid = None \<and> timers (fst (fireTimer e h w)) h = None"
  using assms
  by (auto simp add: fireTimer_def clearTimeout_def handleAuthCheckTimeout_def
      handleAuthCredentialsTimeout_def updateTLendState_def Let_def split: option.splits)

text \<open>
  Claim C3, as the code has it.  Sending \<open>AUTH_CHECK_REQUEST\<close> or \<open>AUTH_CREDENTIALS\<close>
  registers a pending entry under the fresh request id together with its timeout.  The
  entry is removed by whichever comes first: the reply (\<open>AUTH_CHECK_RESPONSE\<close>,
  \<open>AUTH_RESULT\<close>) with that id, which also clears the timeout, or the timeout.  After a
  reply the timeout handler finds nothing and does nothing.  A reply that finds no entry
  (late, or a duplicate) removes nothing, and no reply posts a message in its own run;
  but the rest of the reply handler does not depend on the entry: it processes the
  payload just as it does for a first reply.
\<close>

theorem pending_entry_removed_once:
  assumes "getprop reply ''requestId'' = JStr rid"
  shows
   "(truthy (walletAddress w0) \<longrightarrow>
       pendingRequests (fst (sendAuthCheckRequest e w0)) (generateRequestId e ''auth-check'')
         = Some \<lparr>ptype = ''AUTH_CHECK'', ptimestamp = now e, ptimeout = nextTimer w0\<rparr> \<and>
       timers (fst (sendAuthCheckRequest e w0)) (nextTimer w0)
         = Some (5000, AuthCheckTimeout (generateRequestId e ''auth-check'')) \<and>
       pendingRequests (fst (sendAuthCredentials e w0)) (generateRequestId e ''auth-cred'')
         = Some \<lparr>ptype = ''AUTH_CREDENTIALS'', ptimestamp = now e, ptimeout = nextTimer w0\<rparr> \<and>
       timers (fst (sendAuthCredentials e w0)) (nextTimer w0)
         = Some (30000, AuthCredentialsTimeout (generateRequestId e ''auth-cred''))) \<and>
    (timers w h = Some (d, AuthCheckTimeout rid) \<or> timers w h = Some (d, AuthCredentialsTimeout rid) \<longrightarrow>
       pendingRequests (fst (fireTimer e h w)) rid = None \<and> timers (fst (fireTimer e h w)) h = None) \<and>
    (pendingRequests w rid = Some p \<longrightarrow>
       pendingRequests (fst (handleAuthCheckResponse e reply w)) rid = None \<and>
       timers (fst (handleAuthCheckResponse e reply w)) (ptimeout p) \<noteq> Some (5000, AuthCheckTimeout rid) \<and>
       pendingRequests (fst (handleAuthResult e reply w)) rid = None \<and>
       timers (fst (handleAuthResult e reply w)) (ptimeout p) = None \<and>
       pendingRequests (fst (handleAuthCheckTimeout rid w)) rid = None \<and>
       pendingRequests (fst (handleAuthCredentialsTimeout e rid w)) rid = None) \<and>
    handleAuthCheckTimeout rid (fst (handleAuthCheckResponse e reply w))
      = (fst (handleAuthCheckResponse e reply w), []) \<and>
    handleAuthCredentialsTimeout e rid (fst (handleAuthResult e reply w))
      = (fst (handleAuthResult e reply w), []) \<and>
    (pendingRequests w rid = None \<longrightarrow>
       handleAuthCheckTimeout rid w = (w, []) \<and>
       handleAuthCredentialsTimeout e rid w = (w, []) \<and>
       clearPending (JStr rid) w = w \<and>
       pendingRequests (fst (handleAuthCheckResponse e reply w)) = pendingRequests w \<and>
       pendingRequests (fst (handleAuthResult e reply w)) = pendingRequests w) \<and>
    handleAuthCheckResponse e reply (clearPending (JStr rid) w) = handleAuthCheckResponse e reply w \<and>
    handleAuthResult e reply (clearPending (JStr rid) w) = handleAuthResult e reply w \<and>
    posted (snd (handleAuthCheckResponse e reply w)) = [] \<and>
    posted (snd (handleAuthResult e reply w)) = []"
proof -
  have a: "pendingRequests (fst (handleAuthCheckResponse e reply w)) rid = None"
          "pendingRequests (fst (handleAuthResult e reply w)) rid = None"
    by (simp_all add: response_pending [OF assms] result_pending [OF assms])
  have b: "pendingRequests w rid = Some p \<Longrightarrow>
           pendingRequests (fst (handleAuthCheckTimeout rid w)) rid = None \<and>
           pendingRequests (fst (handleAuthCredentialsTimeout e rid w)) rid = None"
    by (simp add: handleAuthCheckTimeout_def handleAuthCredentialsTimeout_def
        updateTLendState_def Let_def)
  have c: "pendingRequests w' rid = None \<Longrightarrow>
           handleAuthCheckTimeout rid w' = (w', []) \<and> handleAuthCredentialsTimeout e rid w' = (w', [])" for w'
    by (simp add: handleAuthCheckTimeout_def handleAuthCredentialsTimeout_def)
  have d: "pendingRequests w rid = None \<Longrightarrow>
           pendingRequests (fst (handleAuthCheckResponse e reply w)) = pendingRequests w \<and>
           pendingRequests (fst (handleAuthResult e reply w)) = pendingRequests w"
    by (auto simp add: response_pending [OF assms] result_pending [OF assms])
  show ?thesis
    using issue_registers [of w0 e] timeout_fires [of w h d rid e]
      a b c [of w] c [of "fst (handleAuthCheckResponse e reply w)"]
      c [of "fst (handleAuthResult e reply w)"] d
      response_timer [OF assms, of w p e] result_timer [OF assms, of w p e]
      response_after_clear [OF assms, of e w] result_after_clear [OF assms, of e w]
      clearPending_absent [of w rid]
    by (simp add: response_posts_nothing result_posts_nothing)
qed


theorem pending_entry_removed_once_witness:
  "pendingRequests (fst (handleAuthCheckResponse sampleEnv
       (JObj [(''type'', JStr ''AUTH_CHECK_RESPONSE''), (''requestId'', JStr ''auth-check-1''),
              (''timestamp'', JNum 1734280000000),
              (''payload'', JObj [(''authenticated'', JBool True), (''matchesRequested'', JBool True)])])
       (loadedWorld\<lparr>pendingRequests := [''auth-check-1'' \<mapsto>
            \<lparr>ptype = ''AUTH_CHECK'', ptimestamp = 1734280000000, ptimeout = 0\<rparr>],
          timers := [0 \<mapsto> (5000, AuthCheckTimeout ''auth-check-1'')], nextTimer := 1\<rparr>)))
     ''auth-check-1'' = None \<and>
   handleAuthCheckTimeout ''auth-check-1'' loadedWorld = (loadedWorld, []) \<and>
   pendingRequests (fst (fireTimer sampleEnv 0
       (loadedWorld\<lparr>pendingRequests := [''auth-check-1'' \<mapsto>
            \<lparr>ptype = ''AUTH_CHECK'', ptimestamp = 1734280000000, ptimeout = 0\<rparr>],
          timers := [0 \<mapsto> (5000, AuthCheckTimeout ''auth-check-1'')], nextTimer := 1\<rparr>)))
     ''auth-check-1'' = None"
proof -
  let ?reply = "JObj [(''type'', JStr ''AUTH_CHECK_RESPONSE''), (''requestId'', JStr ''auth-check-1''),
              (''timestamp'', JNum 1734280000000),
              (''payload'', JObj [(''authenticated'', JBool True), (''matchesRequested'', JBool True)])]"
  let ?p = "\<lparr>ptype = ''AUTH_CHECK'', ptimestamp = 1734280000000, ptimeout = 0\<rparr>"
  let ?w = "loadedWorld\<lparr>pendingRequests := [''auth-check-1'' \<mapsto> ?p],
          timers := [0 \<mapsto> (5000, AuthCheckTimeout ''auth-check-1'')], nextTimer := 1\<rparr>"
  have r: "getprop ?reply ''requestId'' = JStr ''auth-check-1''" by simp
  have p: "pendingRequests ?w ''auth-check-1'' = Some ?p"
          "timers ?w 0 = Some (5000, AuthCheckTimeout ''auth-check-1'')"
          "pendingRequests loadedWorld ''auth-check-1'' = None"
    by (simp_all add: loadedWorld_def initialWorld_def)
  show ?thesis
    using pending_entry_removed_once [OF r, of loadedWorld sampleEnv ?w 0 5000 ?p]
      pending_entry_removed_once [OF r, of loadedWorld sampleEnv loadedWorld 0 5000 ?p]
      p
    by simp
qed

text \<open>
  The claim as written makes a late or duplicate reply a no-op.  With the wallet
  connected and no entry pending for the id, an \<open>AUTH_CHECK_RESPONSE\<close> that reports
  \<open>authenticated = false\<close> moves the lifecycle state from \<open>READY\<close> to
  \<open>PENDING_AUTH\<close> and schedules \<open>sendAuthCredentials\<close>, which posts
  \<open>AUTH_CREDENTIALS\<close> when it runs.
\<close>

theorem late_reply_is_processed:
  "pendingRequests (loadedWorld\<lparr>walletConnected := True, walletAddress := JStr ''0:abc''\<rparr>)
     ''auth-check-1'' = None \<and>
   tlendState (loadedWorld\<lparr>walletConnected := True, walletAddress := JStr ''0:abc''\<rparr>) = Some READY \<and>
   timers (loadedWorld\<lparr>walletConnected := True, walletAddress := JStr ''0:abc''\<rparr>) 0 = None \<and>
   tlendState (fst (handleMessage sampleEnv ''https://tlend.co''
       (JObj [(''type'', JStr ''AUTH_CHECK_RESPONSE''), (''requestId'', JStr ''auth-check-1''),
              (''timestamp'', JNum 1734280000000),
              (''payload'', JObj [(''authenticated'', JBool False), (''matchesRequested'', JBool False)])])
       (loadedWorld\<lparr>walletConnected := True, walletAddress := JStr ''0:abc''\<rparr>)))
     = Some PENDING_AUTH \<and>
   timers (fst (handleMessage sampleEnv ''https://tlend.co''
       (JObj [(''type'', JStr ''AUTH_CHECK_RESPONSE''), (''requestId'', JStr ''auth-check-1''),
              (''timestamp'', JNum 1734280000000),
              (''payload'', JObj [(''authenticated'', JBool False), (''matchesRequested'', JBool False)])])
       (loadedWorld\<lparr>walletConnected := True, walletAddress := JStr ''0:abc''\<rparr>))) 0
     = Some (500, SendAuthCredentials)"
  by (simp add: handleMessage_unfold storeOrigin_def dispatch_def handleAuthCheckResponse_def
      clearPending_def updateTLendState_def setTimeout_def loadedWorld_def initialWorld_def Let_def)

subsection \<open>A request to authenticate again\<close>

lemma absentOrString_no_throw:
  "absentOrString v \<Longrightarrow> \<not> logAddressThrows e v"
  by (cases v) auto

lemma dispatch_auth_request:
  "getprop message ''type'' = JStr ''AUTH_REQUEST'' \<Longrightarrow> dispatch e message w = handleAuthRequest e message w"
  by (simp add: dispatch_def)

lemma reason_no_throw:
  assumes "getprop payload ''reason'' = JStr r"
  shows "\<not> toStringThrows (if truthy (getprop payload ''reason'') then getprop payload ''reason''
                           else JStr ''unknown'')"
  using assms by simp

lemma handleAuthRequest_connected:
  assumes "getprop (getprop message ''payload'') ''reason'' = JStr r"
      and "absentOrString (getprop (getprop message ''payload'') ''currentAddress'')"
      and "walletConnected w \<and> truthy (walletAddress w)"
  shows "fst (handleAuthRequest e message w)
           = w\<lparr>tlendState := Some PENDING_AUTH,
                timers := (timers w)(nextTimer w \<mapsto> (500, SendAuthCredentials)),
                nextTimer := Suc (nextTimer w)\<rparr> \<and>
         posted (snd (handleAuthRequest e message w)) = []"
  using assms(3) absentOrString_no_throw [OF assms(2), of e] reason_no_throw [OF assms(1)]
  by (simp add: handleAuthRequest_def updateTLendState_def setTimeout_def Let_def)

lemma handleAuthRequest_disconnected:
  assumes "getprop (getprop message ''payload'') ''reason'' = JStr r"
      and "absentOrString (getprop (getprop message ''payload'') ''currentAddress'')"
      and "\<not> (walletConnected w \<and> truthy (walletAddress w))"
  shows "fst (handleAuthRequest e message w) = w \<and>
         posted (snd (handleAuthRequest e message w))
           = (if iframe w \<and> \<not> postMessageThrows e (targetOrigin w)
              then [(JObj [(''type'', JStr ''DISCONNECT''), (''timestamp'', JNum (int (now e))),
                           (''payload'', JObj [(''reason'', JStr ''session_expired'')])],
                     targetOrigin w)]
              else [])"
  using assms(3) absentOrString_no_throw [OF assms(2), of e] reason_no_throw [OF assms(1)]
  by (auto simp add: handleAuthRequest_def sendDisconnect_def sendThrows_def sendToTLend_def Let_def)

lemma sendAuthCredentials_posts:
  assumes "truthy (walletAddress w)" and "iframe w" and "\<not> postMessageThrows e (targetOrigin w)"
  shows "\<exists>m. posted (snd (sendAuthCredentials e w)) = [(m, targetOrigin w)] \<and>
             getprop m ''type'' = JStr ''AUTH_CREDENTIALS'' \<and>
             getprop m ''requestId'' = JStr (generateRequestId e ''auth-cred'') \<and>
             pendingRequests (fst (sendAuthCredentials e w)) (generateRequestId e ''auth-cred'')
               = Some \<lparr>ptype = ''AUTH_CREDENTIALS'', ptimestamp = now e, ptimeout = nextTimer w\<rparr>"
  using assms
  by (simp add: sendAuthCredentials_def sendToTLend_def setTimeout_def Let_def)

text \<open>
  Claim C4, as the code has it.  On an \<open>AUTH_REQUEST\<close> with reason \<open>jwt_expired\<close>,
  \<open>session_invalid\<close> or \<open>storage_unavailable\<close> (the optional \<open>currentAddress\<close> absent
  or a string): if the wallet is connected and an address is held, the lifecycle state is
  set to \<open>PENDING_AUTH\<close>, nothing is posted at once and \<open>sendAuthCredentials\<close> is
  scheduled after 500 ms, which posts one \<open>AUTH_CREDENTIALS\<close> when the iframe is in
  place and \<open>postMessage\<close> accepts the target origin; no \<open>DISCONNECT\<close> is sent.
  Otherwise the lifecycle state, the timeouts and the pending requests stay as they were,
  and a \<open>DISCONNECT\<close> with reason \<open>session_expired\<close> is sent: it is the one message
  posted when the iframe is in place and \<open>postMessage\<close> accepts the target origin, and
  nothing is posted when not.
\<close>

theorem auth_request_reissues_or_disconnects:
  assumes "getprop message ''type'' = JStr ''AUTH_REQUEST''"
      and "getprop (getprop message ''payload'') ''reason'' = JStr r"
      and "r \<in> set reauthReasons"
      and "absentOrString (getprop (getprop message ''payload'') ''currentAddress'')"
  shows "(walletConnected w \<and> truthy (walletAddress w) \<longrightarrow>
            tlendState (fst (handleMessage e origin message w)) = Some PENDING_AUTH \<and>
            posted (snd (handleMessage e origin message w)) = [] \<and>
            timers (fst (handleMessage e origin message w))
              = (timers w)(nextTimer w \<mapsto> (500, SendAuthCredentials)) \<and>
            (iframe w \<and> \<not> postMessageThrows e' (targetOrigin (fst (handleMessage e origin message w)))
               \<longrightarrow>
              (\<exists>m. posted (snd (fireTimer e' (nextTimer w) (fst (handleMessage e origin message w))))
                      = [(m, targetOrigin (fst (handleMessage e origin message w)))] \<and>
                   getprop m ''type'' = JStr ''AUTH_CREDENTIALS''))) \<and>
         (\<not> (walletConnected w \<and> truthy (walletAddress w)) \<longrightarrow>
            tlendState (fst (handleMessage e origin message w)) = tlendState w \<and>
            timers (fst (handleMessage e origin message w)) = timers w \<and>
            pendingRequests (fst (handleMessage e origin message w)) = pendingRequests w \<and>
            posted (snd (handleMessage e origin message w))
              = (if iframe w
                    \<and> \<not> postMessageThrows e (targetOrigin (fst (handleMessage e origin message w)))
                 then [(JObj [(''type'', JStr ''DISCONNECT''), (''timestamp'', JNum (int (now e))),
                              (''payload'', JObj [(''reason'', JStr ''session_expired'')])],
                        targetOrigin (fst (handleMessage e origin message w)))]
                 else []))"
proof -
  let ?w1 = "fst (storeOrigin origin w)"
  have hm: "handleMessage e origin message w =
          (fst (handleAuthRequest e message ?w1),
           snd (storeOrigin origin w) @ [LogEvent ''incoming'' message]
             @ snd (handleAuthRequest e message ?w1))"
    using assms(1) by (simp add: handleMessage_dispatch dispatch_auth_request)
  have same: "walletConnected ?w1 = walletConnected w" "walletAddress ?w1 = walletAddress w"
    "iframe ?w1 = iframe w" "timers ?w1 = timers w" "nextTimer ?w1 = nextTimer w"
    "tlendState ?w1 = tlendState w" "pendingRequests ?w1 = pendingRequests w"
    by (simp_all add: storeOrigin_fields)
  show ?thesis
  proof (cases "walletConnected w \<and> truthy (walletAddress w)")
    case True
    then have c: "walletConnected ?w1 \<and> truthy (walletAddress ?w1)" by (simp add: same)
    note r = handleAuthRequest_connected [OF assms(2) assms(4) c, of e]
    let ?w2 = "fst (handleAuthRequest e message ?w1)"
    have w2: "?w2 = ?w1\<lparr>tlendState := Some PENDING_AUTH,
                timers := (timers ?w1)(nextTimer ?w1 \<mapsto> (500, SendAuthCredentials)),
                nextTimer := Suc (nextTimer ?w1)\<rparr>"
      using r by simp
    have fire: "iframe w \<Longrightarrow> \<not> postMessageThrows e' (targetOrigin ?w2) \<Longrightarrow>
        \<exists>m. posted (snd (fireTimer e' (nextTimer w) ?w2)) = [(m, targetOrigin ?w2)] \<and>
             getprop m ''type'' = JStr ''AUTH_CREDENTIALS''"
    proof -
      assume i: "iframe w" and p: "\<not> postMessageThrows e' (targetOrigin ?w2)"
      let ?w3 = "clearTimeout (nextTimer w) ?w2"
      have o: "targetOrigin ?w3 = targetOrigin ?w2"
        by (simp add: clearTimeout_def)
      have t: "truthy (walletAddress ?w3)" "iframe ?w3"
        using True i by (simp_all add: w2 clearTimeout_def same)
      have p3: "\<not> postMessageThrows e' (targetOrigin ?w3)"
        using p o by simp
      have f: "fireTimer e' (nextTimer w) ?w2 = sendAuthCredentials e' ?w3"
        by (simp add: fireTimer_def w2 same)
      show ?thesis
        using sendAuthCredentials_posts [OF t p3] f o by auto
    qed
    show ?thesis
      using True r fire by (simp add: hm same storeOrigin_posted)
  next
    case False
    then have c: "\<not> (walletConnected ?w1 \<and> truthy (walletAddress ?w1))" by (simp add: same)
    note r = handleAuthRequest_disconnected [OF assms(2) assms(4) c, of e]
    show ?thesis
      using False r by (auto simp add: hm same storeOrigin_posted)
  qed
qed


theorem auth_request_reissues_or_disconnects_witness:
  "posted (snd (handleMessage sampleEnv ''https://tlend.co''
      (JObj [(''type'', JStr ''AUTH_REQUEST''), (''timestamp'', JNum 1734280000000),
             (''payload'', JObj [(''reason'', JStr ''jwt_expired'')])]) loadedWorld))
     = [(JObj [(''type'', JStr ''DISCONNECT''), (''timestamp'', JNum 1734280000000),
               (''payload'', JObj [(''reason'', JStr ''session_expired'')])], ''https://tlend.co'')] \<and>
   posted (snd (handleMessage sampleEnv ''https://tlend.co''
      (JObj [(''type'', JStr ''AUTH_REQUEST''), (''timestamp'', JNum 1734280000000),
             (''payload'', JObj [(''reason'', JStr ''jwt_expired'')])])
      (loadedWorld\<lparr>walletConnected := True, walletAddress := JStr ''0:abc''\<rparr>))) = [] \<and>
   timers (fst (handleMessage sampleEnv ''https://tlend.co''
      (JObj [(''type'', JStr ''AUTH_REQUEST''), (''timestamp'', JNum 1734280000000),
             (''payload'', JObj [(''reason'', JStr ''jwt_expired'')])])
      (loadedWorld\<lparr>walletConnected := True, walletAddress := JStr ''0:abc''\<rparr>))) 0
     = Some (500, SendAuthCredentials)"
proof -
  let ?m = "JObj [(''type'', JStr ''AUTH_REQUEST''), (''timestamp'', JNum 1734280000000),
                  (''payload'', JObj [(''reason'', JStr ''jwt_expired'')])]"
  let ?w = "loadedWorld\<lparr>walletConnected := True, walletAddress := JStr ''0:abc''\<rparr>"
  have m: "getprop ?m ''type'' = JStr ''AUTH_REQUEST''"
          "getprop (getprop ?m ''payload'') ''reason'' = JStr ''jwt_expired''"
          "''jwt_expired'' \<in> set reauthReasons"
          "absentOrString (getprop (getprop ?m ''payload'') ''currentAddress'')"
    by (simp_all add: reauthReasons_def)
  have a: "\<not> (walletConnected loadedWorld \<and> truthy (walletAddress loadedWorld))" "iframe loadedWorld"
          "now sampleEnv = 1734280000000"
          "targetOrigin (fst (handleMessage sampleEnv ''https://tlend.co'' ?m loadedWorld)) = ''https://tlend.co''"
          "\<not> postMessageThrows sampleEnv ''https://tlend.co''"
    by (simp_all add: loadedWorld_def initialWorld_def sampleEnv_def handleMessage_dispatch
        storeOrigin_def dispatch_def handleAuthRequest_def sendDisconnect_def sendThrows_def
        postMessageThrows_def targetOrigin_def Let_def)
  have b: "walletConnected ?w \<and> truthy (walletAddress ?w)" "nextTimer ?w = 0" "timers ?w = Map.empty"
    by (simp_all add: loadedWorld_def initialWorld_def)
  show ?thesis
    using auth_request_reissues_or_disconnects [OF m, of loadedWorld sampleEnv "''https://tlend.co''" sampleEnv]
      auth_request_reissues_or_disconnects [OF m, of ?w sampleEnv "''https://tlend.co''" sampleEnv]
      a b
    by simp
qed

text \<open>
  The claim as written keeps the session in its current lifecycle state when the wallet is
  connected.  From \<open>READY\<close>, the handler moves it to \<open>PENDING_AUTH\<close>.
\<close>

theorem auth_request_leaves_ready:
  "tlendState (loadedWorld\<lparr>walletConnected := True, walletAddress := JStr ''0:abc''\<rparr>) = Some READY \<and>
   tlendState (fst (handleMessage sampleEnv ''https://tlend.co''
      (JObj [(''type'', JStr ''AUTH_REQUEST''), (''timestamp'', JNum 1734280000000),
             (''payload'', JObj [(''reason'', JStr ''jwt_expired'')])])
      (loadedWorld\<lparr>walletConnected := True, walletAddress := JStr ''0:abc''\<rparr>))) = Some PENDING_AUTH"
  by (simp add: handleMessage_unfold storeOrigin_def dispatch_def handleAuthRequest_def
      updateTLendState_def setTimeout_def loadedWorld_def initialWorld_def Let_def)

subsection \<open>Repayment without a pending request\<close>

text \<open>
  Claim C10.  When \<open>state.pendingRepayRequest\<close> is \<open>null\<close>, \<open>approveRepayRequest\<close> and
  \<open>rejectRepayRequest\<close> both return at once: the state is the one they found and the
  only effect is a line in the event log, so no \<open>REPAY_RESULT\<close> is posted.
\<close>

theorem no_pending_repay_is_noop:
  assumes "pendingRepayRequest w = None"
  shows "approveRepayRequest e w = (w, [LogInfo ''No pending repay request'']) \<and>
         rejectRepayRequest e reason w = (w, [LogInfo ''No pending repay request'']) \<and>
         posted (snd (approveRepayRequest e w)) = [] \<and>
         posted (snd (rejectRepayRequest e reason w)) = []"
  using assms by (simp add: approveRepayRequest_def rejectRepayRequest_def)

theorem no_pending_repay_is_noop_witness:
  "pendingRepayRequest loadedWorld = None \<and>
   approveRepayRequest sampleEnv loadedWorld = (loadedWorld, [LogInfo ''No pending repay request'']) \<and>
   rejectRepayRequest sampleEnv (JStr ''USER_REJECTED'') loadedWorld
     = (loadedWorld, [LogInfo ''No pending repay request'']) \<and>
   posted (snd (approveRepayRequest sampleEnv loadedWorld)) = [] \<and>
   posted (snd (rejectRepayRequest sampleEnv (JStr ''USER_REJECTED'') loadedWorld)) = []"
proof -
  have p: "pendingRepayRequest loadedWorld = None"
    by (simp add: loadedWorld_def initialWorld_def)
  show ?thesis
    using no_pending_repay_is_noop [OF p, of sampleEnv "JStr ''USER_REJECTED''"] p by simp
qed

subsection \<open>Rejecting a pending repayment\<close>

lemma reject_not_posted:
  assumes "pendingRepayRequest w = Some r"
  shows "(\<not> iframe w \<longrightarrow>
            posted (snd (rejectRepayRequest e reason w)) = [] \<and>
            pendingRepayRequest (fst (rejectRepayRequest e reason w)) = None) \<and>
         (iframe w \<and> postMessageThrows e (targetOrigin w) \<longrightarrow>
            rejectRepayRequest e reason w = (w, [Uncaught]))"
  using assms
  by (simp add: rejectRepayRequest_def sendThrows_def sendToTLend_def cleanUpRepay_def Let_def)

lemma null_origin_is_no_target: "postMessageThrows e ''null''"
  by (simp add: postMessageThrows_def)

text \<open>
  Claim C5, as the code has it.  With a repayment request pending, the iframe in place
  and a target origin that \<open>postMessage\<close> accepts, \<open>rejectRepayRequest\<close> posts exactly
  one message.  It is a \<open>REPAY_RESULT\<close> for the pending request id with
  \<open>success = false\<close> and the supplied error code (\<open>USER_REJECTED\<close> when none is
  supplied); \<open>userCancelled\<close> is \<open>true\<close> exactly when that code is \<open>USER_REJECTED\<close>.
  The slot is free afterwards.
\<close>

theorem reject_posts_one_result:
  assumes "pendingRepayRequest w = Some r" and "iframe w"
      and "\<not> postMessageThrows e (targetOrigin w)"
  shows "\<exists>m. posted (snd (rejectRepayRequest e reason w)) = [(m, targetOrigin w)] \<and>
             getprop m ''type'' = JStr ''REPAY_RESULT'' \<and>
             getprop m ''requestId'' = rr_requestId r \<and>
             getprop (getprop m ''payload'') ''success'' = JBool False \<and>
             getprop (getprop (getprop m ''payload'') ''error'') ''code''
               = (if reason = JUndefined then JStr ''USER_REJECTED'' else reason) \<and>
             getprop (getprop (getprop m ''payload'') ''error'') ''userCancelled''
               = JBool (reason = JUndefined \<or> reason = JStr ''USER_REJECTED'') \<and>
             pendingRepayRequest (fst (rejectRepayRequest e reason w)) = None"
  using assms
  by (auto simp add: rejectRepayRequest_def sendThrows_def sendToTLend_def posted_def
      cleanUpRepay_def Let_def)

theorem reject_posts_one_result_witness:
  "pendingRepayRequest (loadedWorld\<lparr>pendingRepayRequest := Some sampleRepay\<rparr>) = Some sampleRepay \<and>
   iframe (loadedWorld\<lparr>pendingRepayRequest := Some sampleRepay\<rparr>) \<and>
   \<not> postMessageThrows sampleEnv (targetOrigin (loadedWorld\<lparr>pendingRepayRequest := Some sampleRepay\<rparr>)) \<and>
   (\<exists>m. posted (snd (rejectRepayRequest sampleEnv JUndefined
                        (loadedWorld\<lparr>pendingRepayRequest := Some sampleRepay\<rparr>)))
            = [(m, ''https://tlend.co'')] \<and>
        getprop (getprop (getprop m ''payload'') ''error'') ''code'' = JStr ''USER_REJECTED'' \<and>
        getprop (getprop (getprop m ''payload'') ''error'') ''userCancelled'' = JBool True)"
  using reject_posts_one_result
    [of "loadedWorld\<lparr>pendingRepayRequest := Some sampleRepay\<rparr>" sampleRepay sampleEnv JUndefined]
  by (auto simp add: loadedWorld_def initialWorld_def targetOrigin_def postMessageThrows_def
      sampleEnv_def)

text \<open>
  The claim as written asks for \<open>userCancelled = true\<close> whatever the code.  Rejecting
  with the code \<open>TRANSACTION_FAILED\<close> posts \<open>userCancelled = false\<close>.
\<close>

theorem reject_other_code_is_not_cancelled:
  "posted (snd (rejectRepayRequest sampleEnv (JStr ''TRANSACTION_FAILED'')
                  (loadedWorld\<lparr>pendingRepayRequest := Some sampleRepay\<rparr>)))
   = [(JObj [(''type'', JStr ''REPAY_RESULT''), (''requestId'', JStr ''repay-1''),
             (''timestamp'', JNum 1734280000000),
             (''payload'', JObj [(''success'', JBool False),
                (''error'', JObj [(''code'', JStr ''TRANSACTION_FAILED''),
                                  (''message'', JStr ''Transaction failed''),
                                  (''userCancelled'', JBool False)])])],
       ''https://tlend.co'')]"
  by (simp add: rejectRepayRequest_def sendThrows_def sendToTLend_def postMessageThrows_def
      posted_def targetOrigin_def Let_def loadedWorld_def initialWorld_def sampleRepay_def
      sampleEnv_def)

subsection \<open>A failed authentication result\<close>



subsection \<open>The target origin of outbound messages\<close>

lemma step_sendsTo:
  assumes "\<not> isMessage a"
  shows "sendsTo (targetOrigin w) (snd (step e a w))"
proof (cases "a = LoadIframe")
  case True
  then show ?thesis by (simp add: loadIframe_sendsTo)
next
  case False
  then show ?thesis using keeps_step [OF assms, of w e] by (simp add: keeps_def)
qed

lemma first_message:
  assumes "tlendOrigin w = None" and "origin \<noteq> []"
  shows "tlendOrigin (fst (handleMessage e origin message w)) = Some origin \<and>
         TLEND_ORIGINS (fst (handleMessage e origin message w))
           = (if origin \<in> set (TLEND_ORIGINS w) then TLEND_ORIGINS w else TLEND_ORIGINS w @ [origin]) \<and>
         sendsTo origin (snd (handleMessage e origin message w))"
proof -
  let ?w1 = "fst (storeOrigin origin w)"
  note s = storeOrigin_fresh [OF assms(1), of origin]
  have t: "targetOrigin ?w1 = origin"
    using s assms(2) by (simp add: targetOrigin_def)
  have p: "sendsTo origin (snd (storeOrigin origin w))"
    by (simp add: sendsTo_def storeOrigin_posted)
  have k: "keeps ?w1 (dispatch e message ?w1)"
    by (rule keeps_dispatch)
  show ?thesis
  proof (cases "\<not> truthy message \<or> typeof message \<noteq> ''object'' \<or> \<not> truthy (getprop message ''type'')")
    case True
    then have "handleMessage e origin message w = storeOrigin origin w"
      by (simp only: handleMessage_unfold if_True)
    then show ?thesis using s p by simp
  next
    case False
    then have "handleMessage e origin message w =
        (fst (dispatch e message ?w1),
         snd (storeOrigin origin w) @ [LogEvent ''incoming'' message] @ snd (dispatch e message ?w1))"
      by (simp only: handleMessage_unfold if_False)
    then show ?thesis using s p k t by (simp add: keeps_def)
  qed
qed

text \<open>
  Claim C9.  While no origin is stored, whatever the page does other than handling a
  message posts to the wildcard \<open>*\<close>.  The first message, whatever its origin (the
  origin of a delivered message is \<open>null\<close> or a serialized origin, never the empty
  string), has that origin stored and appended to the allow-list if it is not in it.
  From then on that origin is the target origin handed to \<open>postMessage\<close>: the reply to
  that message, and everything posted by any later run of actions that does not load a
  new iframe, goes to that origin, which stays stored (also across \<open>reloadIframe\<close>).
  Loading a new iframe clears the stored origin.
\<close>

theorem first_origin_is_pinned:
  assumes "tlendOrigin w = None" and "origin \<noteq> []" and "\<not> isMessage a"
      and "list_all (\<lambda>ea. snd ea \<noteq> LoadIframe) acts"
  shows "sendsTo ''*'' (snd (step e0 a w)) \<and>
         tlendOrigin (fst (handleMessage e origin message w)) = Some origin \<and>
         TLEND_ORIGINS (fst (handleMessage e origin message w))
           = (if origin \<in> set (TLEND_ORIGINS w) then TLEND_ORIGINS w else TLEND_ORIGINS w @ [origin]) \<and>
         targetOrigin (fst (handleMessage e origin message w)) = origin \<and>
         sendsTo origin (snd (handleMessage e origin message w)) \<and>
         tlendOrigin (fst (run acts (fst (handleMessage e origin message w)))) = Some origin \<and>
         targetOrigin (fst (run acts (fst (handleMessage e origin message w)))) = origin \<and>
         sendsTo origin (snd (run acts (fst (handleMessage e origin message w)))) \<and>
         (orDefault (tlendUrl e1) [] \<noteq> [] \<and> iframeContainer e1 \<longrightarrow>
            tlendOrigin (fst (loadIframe e1 w1)) = None)"
proof -
  have l: "orDefault (tlendUrl e1) [] \<noteq> [] \<and> iframeContainer e1 \<longrightarrow>
            tlendOrigin (fst (loadIframe e1 w1)) = None"
    by (simp add: loadIframe_def updateTLendState_def)
  have "targetOrigin w = ''*''"
    using assms(1) by (simp add: targetOrigin_def)
  then have a: "sendsTo ''*'' (snd (step e0 a w))"
    using step_sendsTo [OF assms(3), of w e0] by simp
  note f = first_message [OF assms(1,2), of e message]
  have r: "tlendOrigin (fst (run acts (fst (handleMessage e origin message w)))) = Some origin \<and>
           sendsTo origin (snd (run acts (fst (handleMessage e origin message w))))"
    using f assms(2,4) by (intro run_keeps_stored) simp_all
  have t: "targetOrigin (fst (handleMessage e origin message w)) = origin"
          "targetOrigin (fst (run acts (fst (handleMessage e origin message w)))) = origin"
    using f r assms(2) by (simp_all add: targetOrigin_def)
  show ?thesis using a f r t l by simp
qed

theorem first_origin_is_pinned_witness:
  "tlendOrigin (initialWorld\<lparr>iframe := True\<rparr>) = None \<and>
   sendsTo ''*'' (snd (step sampleEnv CallSendSetLogo (initialWorld\<lparr>iframe := True\<rparr>))) \<and>
   tlendOrigin (fst (handleMessage sampleEnv ''https://app-test.tlend.co''
       (JObj [(''type'', JStr ''TLEND_READY''), (''timestamp'', JNum 1734280000000)])
       (initialWorld\<lparr>iframe := True\<rparr>))) = Some ''https://app-test.tlend.co'' \<and>
   TLEND_ORIGINS (fst (handleMessage sampleEnv ''https://app-test.tlend.co''
       (JObj [(''type'', JStr ''TLEND_READY''), (''timestamp'', JNum 1734280000000)])
       (initialWorld\<lparr>iframe := True\<rparr>)))
     = [''https://tlend.co'', ''https://staging.tlend.co'', ''https://app-test.tlend.co''] \<and>
   targetOrigin (fst (run [(sampleEnv, CallSendDisconnect JUndefined), (sampleEnv, ReloadIframe),
                (sampleEnv, CallSendStylesUpgrade)]
       (fst (handleMessage sampleEnv ''https://app-test.tlend.co''
          (JObj [(''type'', JStr ''TLEND_READY''), (''timestamp'', JNum 1734280000000)])
          (initialWorld\<lparr>iframe := True\<rparr>))))) = ''https://app-test.tlend.co'' \<and>
   sendsTo ''https://app-test.tlend.co''
     (snd (run [(sampleEnv, CallSendDisconnect JUndefined), (sampleEnv, ReloadIframe),
                (sampleEnv, CallSendStylesUpgrade)]
       (fst (handleMessage sampleEnv ''https://app-test.tlend.co''
          (JObj [(''type'', JStr ''TLEND_READY''), (''timestamp'', JNum 1734280000000)])
          (initialWorld\<lparr>iframe := True\<rparr>)))))"
  using first_origin_is_pinned
    [of "initialWorld\<lparr>iframe := True\<rparr>" "''https://app-test.tlend.co''" CallSendSetLogo
        "[(sampleEnv, CallSendDisconnect JUndefined), (sampleEnv, ReloadIframe),
          (sampleEnv, CallSendStylesUpgrade)]"
        sampleEnv sampleEnv
        "JObj [(''type'', JStr ''TLEND_READY''), (''timestamp'', JNum 1734280000000)]"]
  by (simp add: initialWorld_def)

text \<open>
  What is posted after the first message: a \<open>DISCONNECT\<close> goes to the stored origin
  when \<open>postMessage\<close> accepts it, and with the origin \<open>null\<close> stored the send throws
  and posts nothing.
\<close>

lemma pinned_origin_post:
  "posted (snd (sendDisconnect sampleEnv JUndefined
      (fst (handleMessage sampleEnv ''https://app-test.tlend.co''
          (JObj [(''type'', JStr ''TLEND_READY''), (''timestamp'', JNum 1734280000000)])
          (initialWorld\<lparr>iframe := True\<rparr>)))))
     = [(JObj [(''type'', JStr ''DISCONNECT''), (''timestamp'', JNum 1734280000000),
               (''payload'', JObj [(''reason'', JStr ''user_initiated'')])],
         ''https://app-test.tlend.co'')] \<and>
   sendDisconnect sampleEnv JUndefined
      (fst (handleMessage sampleEnv ''null'' (JStr ''hello'') (initialWorld\<lparr>iframe := True\<rparr>)))
     = (fst (handleMessage sampleEnv ''null'' (JStr ''hello'') (initialWorld\<lparr>iframe := True\<rparr>)),
        [Uncaught])"
  by (simp add: handleMessage_unfold storeOrigin_def dispatch_def handleTLendReady_def
      isSkipAuth_def updateTLendState_def initialWorld_def sendDisconnect_def sendThrows_def
      sendToTLend_def postMessageThrows_def targetOrigin_def sampleEnv_def Let_def)

subsection \<open>The challenge payload\<close>

lemma length_bytesOf [simp]: "length (bytesOf w) = 4"
  by (simp add: bytesOf_def)

lemma length_digest [simp]: "length (digest s) = 32"
  by (cases s rule: digest.cases) simp

lemma length_sha256 [simp]: "length (sha256 msg) = 32"
  by (simp add: sha256_def)

lemma length_hmacSha256 [simp]: "length (hmacSha256 key msg) = 32"
  by (simp add: hmacSha256_def Let_def)


lemma unhex_digitChar_all: "list_all (\<lambda>d. unhex (digitChar d) = Some d) [0..<16]"
  by (simp add: unhex_def digitChar_def upt_rec)

lemma unhex_digitChar: "d < 16 \<Longrightarrow> unhex (digitChar d) = Some d"
  using unhex_digitChar_all by (simp add: list_all_iff)

lemma hexDecode_hexEncode: "hexDecode (hexEncode bs) = bs"
proof (induction bs)
  case Nil
  then show ?case by simp
next
  case (Cons b bs)
  have "unat b < 256" using unsigned_less [of b, where ?'a = nat] by simp
  then have d: "unat b div 16 < 16" "unat b mod 16 < 16" by auto
  have "word_of_nat (16 * (unat b div 16) + unat b mod 16) = b"
    by simp
  then show ?case
    using Cons d by (simp add: unhex_digitChar)
qed

lemma hexDecode_examples:
  "hexDecode ''1a2B'' = [0x1a, 0x2b]"
  "hexDecode ''1ag123'' = [0x1a]"
  "hexDecode ''1a7'' = [0x1a]"
  "hexEncode [0x1a, 0x2b] = ''1a2b''"
  "readUInt32BE [0x67, 0x5f, 0x06, 0xc4, 0xff] = Inr 1734280900"
  "readUInt32BE [0x67, 0x5f, 0x06] = Inl RangeError"
  by (simp_all add: unhex_def digitChar_def)

lemma byte_bound: "unat (b :: byte) < 256"
  using unsigned_less [of b, where ?'a = nat] by simp

lemma div_split: "r < a \<Longrightarrow> (a * q + r) div a = (q::nat)"
  by simp

lemma write_after_read:
  "writeUInt32BE (16777216 * unat (b0::byte) + 65536 * unat (b1::byte) + 256 * unat (b2::byte) + unat (b3::byte))
     = Inr [b0, b1, b2, b3]"
proof -
  define u0 u1 u2 u3 where u: "u0 = unat b0" "u1 = unat b1" "u2 = unat b2" "u3 = unat b3"
  let ?n = "16777216 * u0 + 65536 * u1 + 256 * u2 + u3"
  have b: "u0 < 256" "u1 < 256" "u2 < 256" "u3 < 256"
    unfolding u by (rule byte_bound)+
  have r: "?n < 4294967296" using b by linarith
  have "?n = 16777216 * u0 + (65536 * u1 + 256 * u2 + u3)" by simp
  moreover have "65536 * u1 + 256 * u2 + u3 < 16777216" using b by linarith
  ultimately have d0: "?n div 16777216 = u0" using div_split by metis
  have "?n = 65536 * (256 * u0 + u1) + (256 * u2 + u3)" by simp
  moreover have "256 * u2 + u3 < 65536" using b by linarith
  ultimately have d1: "?n div 65536 = 256 * u0 + u1" using div_split by metis
  have "?n = 256 * (65536 * u0 + 256 * u1 + u2) + u3" by simp
  then have d2: "?n div 256 = 65536 * u0 + 256 * u1 + u2" using div_split b(4) by metis
  have z: "(256 :: byte) = 0" "(65536 :: byte) = 0" "(16777216 :: byte) = 0" by simp_all
  have w: "writeUInt32BE ?n = Inr [word_of_nat u0, word_of_nat (256 * u0 + u1),
             word_of_nat (65536 * u0 + 256 * u1 + u2), word_of_nat ?n]"
    unfolding writeUInt32BE_def using r by (simp only: d0 d1 d2 if_True)
  have "word_of_nat u0 = b0" "word_of_nat (256 * u0 + u1) = b1"
       "word_of_nat (65536 * u0 + 256 * u1 + u2) = b2" "word_of_nat ?n = b3"
    by (simp_all add: u z)
  then show ?thesis using w by (simp add: u)
qed

lemma read_after_write:
  assumes "n < 4294967296"
  shows "\<exists>b0 b1 b2 b3. writeUInt32BE n = Inr [b0, b1, b2, b3] \<and>
           (\<forall>rest. readUInt32BE (b0 # b1 # b2 # b3 # rest) = Inr n)"
proof -
  define a b c where abc: "a = n div 256" "b = a div 256" "c = b div 256"
  define m0 m1 m2 where m: "m0 = n mod 256" "m1 = a mod 256" "m2 = b mod 256"
  have e: "n = 256 * a + m0" "a = 256 * b + m1" "b = 256 * c + m2"
    unfolding abc m by simp_all
  have c: "c < 256"
  proof (rule ccontr)
    assume "\<not> c < 256"
    then have "256 \<le> c" by simp
    then have "4294967296 \<le> n" using e by linarith
    then show False using assms by simp
  qed
  have d: "n div 65536 = b" "n div 16777216 = c"
    unfolding abc by (simp_all add: div_mult2_eq)
  have "16777216 * c + 65536 * m2 + 256 * m1 + m0 = n"
    using e by linarith
  then have "16777216 * (n div 16777216 mod 256) + 65536 * (n div 65536 mod 256)
          + 256 * (n div 256 mod 256) + n mod 256 = n"
    using c by (simp add: d abc [symmetric] m [symmetric])
  then show ?thesis
    using assms by (simp add: writeUInt32BE_def unat_of_nat)
qed


lemma take4_cases:
  assumes "4 \<le> length bs"
  obtains b0 b1 b2 b3 rest where "bs = b0 # b1 # b2 # b3 # rest"
proof -
  obtain b0 r0 where "bs = b0 # r0" using assms by (cases bs) auto
  moreover obtain b1 r1 where "r0 = b1 # r1" using assms calculation by (cases r0) auto
  moreover obtain b2 r2 where "r1 = b2 # r2" using assms calculation by (cases r1) auto
  moreover obtain b3 r3 where "r2 = b3 # r3" using assms calculation by (cases r2) auto
  ultimately show ?thesis using that by simp
qed

lemma read_write:
  assumes "4 \<le> length bs"
  shows "\<exists>n. readUInt32BE bs = Inr n \<and> writeUInt32BE n = Inr (take 4 bs)"
proof -
  obtain b0 b1 b2 b3 rest where bs: "bs = b0 # b1 # b2 # b3 # rest"
    using assms by (rule take4_cases)
  show ?thesis
    using write_after_read [of b0 b1 b2 b3] by (simp add: bs)
qed

lemma verify_eq:
  "verifyPartnerPayload nowMs payloadHex secret =
    Inr (32 \<le> length (hexDecode payloadHex) \<and>
         (\<exists>expiration. readUInt32BE (hexDecode payloadHex) = Inr expiration \<and>
            nowMs div 1000 < expiration \<and> expiration \<le> nowMs div 1000 + 30 * 60) \<and>
         take 28 (drop 4 (hexDecode payloadHex))
           = take 28 (hmacSha256 secret (take 4 (hexDecode payloadHex))))"
proof (cases "length (hexDecode payloadHex) < 32")
  case True
  then show ?thesis by (simp add: verifyPartnerPayload_def)
next
  case False
  then have len: "32 \<le> length (hexDecode payloadHex)" by simp
  then obtain n where n: "readUInt32BE (hexDecode payloadHex) = Inr n"
      "writeUInt32BE n = Inr (take 4 (hexDecode payloadHex))"
    using read_write [of "hexDecode payloadHex"] by auto
  have l: "length (take 28 (drop 4 (hexDecode payloadHex))) = 28" using len by simp
  show ?thesis
    using False n l by (auto simp add: verifyPartnerPayload_def timingSafeEqual_def Let_def)
qed


lemma issued_payload:
  assumes "generatePayload issuedMs secret = Inr payload"
  shows "\<exists>b0 b1 b2 b3.
           hexDecode payload = [b0, b1, b2, b3] @ take 28 (hmacSha256 secret [b0, b1, b2, b3]) \<and>
           readUInt32BE (hexDecode payload) = Inr (issuedMs div 1000 + 15 * 60)"
proof -
  let ?t = "issuedMs div 1000 + 15 * 60"
  have range: "?t < 4294967296"
    using assms by (auto simp add: generatePayload_def writeUInt32BE_def Let_def split: if_splits)
  obtain b0 b1 b2 b3 where b: "writeUInt32BE ?t = Inr [b0, b1, b2, b3]"
      and rd: "\<And>rest. readUInt32BE (b0 # b1 # b2 # b3 # rest) = Inr ?t"
    using read_after_write [OF range] by auto
  let ?sig = "take 28 (hmacSha256 secret [b0, b1, b2, b3])"
  have p: "payload = hexEncode ([b0, b1, b2, b3] @ ?sig)"
    using assms b by (simp add: generatePayload_def Let_def)
  have d: "hexDecode payload = [b0, b1, b2, b3] @ ?sig"
    unfolding p by (rule hexDecode_hexEncode)
  show ?thesis
    using d rd [of ?sig] by auto
qed

text \<open>
  Claim C6, as the code has it.  \<open>verifyPartnerPayload\<close> never throws, and it returns
  \<open>true\<close> exactly when the decoded payload has at least 32 bytes, the big-endian number
  in its first four bytes is later than the current second and at most 30 minutes
  later, and its bytes 4 to 31 are the first 28 bytes of the HMAC-SHA256 of those four
  bytes under the shared secret.  Bytes after the first 32 are not looked at.  (The
  comparison is \<open>timingSafeEqual\<close>; how long it takes is outside this model.)
\<close>

theorem verify_accepts_exactly:
  "verifyPartnerPayload nowMs payloadHex secret =
    Inr (32 \<le> length (hexDecode payloadHex) \<and>
         (\<exists>expiration. readUInt32BE (hexDecode payloadHex) = Inr expiration \<and>
            nowMs div 1000 < expiration \<and> expiration \<le> nowMs div 1000 + 30 * 60) \<and>
         take 28 (drop 4 (hexDecode payloadHex))
           = take 28 (hmacSha256 secret (take 4 (hexDecode payloadHex))))"
  by (rule verify_eq)

theorem verify_accepts_exactly_witness:
  "verifyPartnerPayload 1734280000000 ''675f06c4'' sampleSecret = Inr False \<and>
   verifyPartnerPayload 1734280000000
     (hexEncode ([0x67, 0x5f, 0x06, 0xc4] @ take 28 (hmacSha256 sampleSecret [0x67, 0x5f, 0x06, 0xc4])))
     sampleSecret = Inr True"
proof -
  let ?b = "[0x67, 0x5f, 0x06, 0xc4] :: byte list"
  let ?bs = "?b @ take 28 (hmacSha256 sampleSecret ?b)"
  have s: "length (hexDecode ''675f06c4'') = 4"
    by (simp add: unhex_def)
  have d: "hexDecode (hexEncode ?bs) = ?bs"
    by (rule hexDecode_hexEncode)
  have "verifyPartnerPayload 1734280000000 ''675f06c4'' sampleSecret = Inr False"
    using verify_accepts_exactly [of 1734280000000 "''675f06c4''" sampleSecret] s by simp
  moreover have "verifyPartnerPayload 1734280000000 (hexEncode ?bs) sampleSecret = Inr True"
    using verify_accepts_exactly [of 1734280000000 "hexEncode ?bs" sampleSecret]
    unfolding d by simp
  ultimately show ?thesis by simp
qed

text \<open>
  The claim as written requires exactly 32 bytes.  A valid payload with one more byte
  appended decodes to 33 bytes and is accepted.
\<close>

theorem longer_payload_is_accepted:
  "length (hexDecode (hexEncode ([0x67, 0x5f, 0x06, 0xc4]
      @ take 28 (hmacSha256 sampleSecret [0x67, 0x5f, 0x06, 0xc4]) @ [0x00]))) = 33 \<and>
   verifyPartnerPayload 1734280000000
     (hexEncode ([0x67, 0x5f, 0x06, 0xc4]
        @ take 28 (hmacSha256 sampleSecret [0x67, 0x5f, 0x06, 0xc4]) @ [0x00]))
     sampleSecret = Inr True"
proof -
  let ?b = "[0x67, 0x5f, 0x06, 0xc4] :: byte list"
  let ?bs = "?b @ take 28 (hmacSha256 sampleSecret ?b) @ [0x00]"
  have d: "hexDecode (hexEncode ?bs) = ?bs"
    by (rule hexDecode_hexEncode)
  have "length (hexDecode (hexEncode ?bs)) = 33"
    unfolding d by simp
  moreover have "verifyPartnerPayload 1734280000000 (hexEncode ?bs) sampleSecret = Inr True"
    unfolding verify_eq d by simp
  ultimately show ?thesis by simp
qed

text \<open>
  Claim C7.  A payload that \<open>generatePayload\<close> has issued with a secret is accepted by
  \<open>verifyPartnerPayload\<close> with the same secret at any time at which its expiration, 15
  minutes after issue, is still in the future and within the 30-minute window; the
  moment of issue is such a time.
\<close>

theorem issue_then_verify:
  assumes "generatePayload issuedMs secret = Inr payload"
      and "verifyMs div 1000 < issuedMs div 1000 + 15 * 60"
      and "issuedMs div 1000 + 15 * 60 \<le> verifyMs div 1000 + 30 * 60"
  shows "verifyPartnerPayload verifyMs payload secret = Inr True \<and>
         verifyPartnerPayload issuedMs payload secret = Inr True"
proof -
  obtain b0 b1 b2 b3 where
      d: "hexDecode payload = [b0, b1, b2, b3] @ take 28 (hmacSha256 secret [b0, b1, b2, b3])"
      and r: "readUInt32BE (hexDecode payload) = Inr (issuedMs div 1000 + 15 * 60)"
    using issued_payload [OF assms(1)] by auto
  have "verifyPartnerPayload t payload secret = Inr True"
    if "t div 1000 < issuedMs div 1000 + 15 * 60" "issuedMs div 1000 + 15 * 60 \<le> t div 1000 + 30 * 60"
    for t
    using that r by (simp add: verify_eq) (simp add: d)
  then show ?thesis
    using assms(2,3) by simp
qed

theorem issue_then_verify_witness:
  "generatePayload 1734280000000 sampleSecret
     = Inr (hexEncode ([0x67, 0x5f, 0x06, 0xc4] @ take 28 (hmacSha256 sampleSecret [0x67, 0x5f, 0x06, 0xc4]))) \<and>
   verifyPartnerPayload 1734280600000
     (hexEncode ([0x67, 0x5f, 0x06, 0xc4] @ take 28 (hmacSha256 sampleSecret [0x67, 0x5f, 0x06, 0xc4])))
     sampleSecret = Inr True \<and>
   verifyPartnerPayload 1734280000000
     (hexEncode ([0x67, 0x5f, 0x06, 0xc4] @ take 28 (hmacSha256 sampleSecret [0x67, 0x5f, 0x06, 0xc4])))
     sampleSecret = Inr True"
proof -
  have g: "generatePayload 1734280000000 sampleSecret
     = Inr (hexEncode ([0x67, 0x5f, 0x06, 0xc4] @ take 28 (hmacSha256 sampleSecret [0x67, 0x5f, 0x06, 0xc4])))"
  proof -
    have b: "(26463 :: byte) = 95" "(6774534 :: byte) = 6" "(1734280900 :: byte) = 196"
      by simp_all
    show ?thesis
      by (simp add: generatePayload_def writeUInt32BE_def Let_def b)
  qed
  show ?thesis
    using issue_then_verify [OF g, of 1734280600000] g by simp
qed

end
